theory Spec2Isabelle
  imports Main "HOL-Library.Word"
begin

unbundle bit_operations_syntax

section \<open>The reMarkable HWMON keyboard driver (rm_hwmon_keyboard.c)\<close>

text \<open>
  A shallow embedding of the keyboard accessory driver. Every handler of the driver is a
  function from the driver state (\<open>struct kb_data\<close>) to a return value, the new state and
  the list of calls it made to its collaborators (transport, firmware provider, input
  core, work queue), in program order. What a collaborator answers is an argument of the
  handler, so a theorem quantified over the answers holds for every behaviour of the
  collaborator. A handler is one atomic step: \<open>kb_connect_lock\<close> is not represented.
\<close>

subsection \<open>Machine types and constants\<close>

type_synonym u8 = "8 word"
type_synonym u16 = "16 word"
type_synonym u32 = "32 word"

text \<open>Error numbers of the kernel (errno-base.h), returned negated.\<close>

definition ENXIO :: int where "ENXIO = 6"
definition ENOEXEC :: int where "ENOEXEC = 8"
definition ENOMEM :: int where "ENOMEM = 12"
definition EBUSY :: int where "EBUSY = 16"
definition ENODEV :: int where "ENODEV = 19"
definition EINVAL :: int where "EINVAL = 22"

text \<open>Event types and LED codes of the input core (input-event-codes.h).\<close>

definition EV_KEY :: nat where "EV_KEY = 1"
definition EV_LED :: nat where "EV_LED = 17"
definition EV_REP :: nat where "EV_REP = 20"
definition LED_CAPSL :: nat where "LED_CAPSL = 1"
definition LED_MISC :: nat where "LED_MISC = 8"

definition FWU_MAX_PACKET_SIZE :: nat where "FWU_MAX_PACKET_SIZE = 256"
definition MAX_BL_BRIGHTNESS :: int where "MAX_BL_BRIGHTNESS = 255"
definition ATTRIBUTES_NR_OF_BKLS :: nat where "ATTRIBUTES_NR_OF_BKLS = 6"

text \<open>\<open>enum condor_language\<close>.\<close>

definition LANGUAGE_MIN :: nat where "LANGUAGE_MIN = 0"
definition LANGUAGE_MAX :: nat where "LANGUAGE_MAX = 9"

text \<open>\<open>enum condor_attribute_ids\<close>: an attribute id is one byte on the wire.\<close>

definition KB_ATTR_ID_PROTOCOL_VERSION :: u8 where "KB_ATTR_ID_PROTOCOL_VERSION = 0x01"
definition KB_ATTR_ID_FW_VERSION :: u8 where "KB_ATTR_ID_FW_VERSION = 0x02"
definition KB_ATTR_ID_HW_VERSION :: u8 where "KB_ATTR_ID_HW_VERSION = 0x03"
definition KB_ATTR_ID_DEVICE_CLASS :: u8 where "KB_ATTR_ID_DEVICE_CLASS = 0x04"
definition KB_ATTR_ID_DEVICE_ID :: u8 where "KB_ATTR_ID_DEVICE_ID = 0x05"
definition KB_ATTR_ID_IMAGE_START_ADDRESS :: u8 where "KB_ATTR_ID_IMAGE_START_ADDRESS = 0x06"
definition KB_ATTR_ID_DEVICE_NAME :: u8 where "KB_ATTR_ID_DEVICE_NAME = 0x07"
definition KB_ATTR_ID_GIT_INFO :: u8 where "KB_ATTR_ID_GIT_INFO = 0x08"
definition KB_ATTR_ID_VALID_IMAGE :: u8 where "KB_ATTR_ID_VALID_IMAGE = 0x09"
definition KB_ATTR_ID_KEY_LAYOUT :: u8 where "KB_ATTR_ID_KEY_LAYOUT = 0x10"
definition KB_ATTR_ID_LANGUAGE :: u8 where "KB_ATTR_ID_LANGUAGE = 0x11"
definition KB_ATTR_ID_RM_SERIAL_NUMBER :: u8 where "KB_ATTR_ID_RM_SERIAL_NUMBER = 0x12"
definition KB_ATTR_ID_CN_SERIAL_NUMBER :: u8 where "KB_ATTR_ID_CN_SERIAL_NUMBER = 0x13"
definition KB_ATTR_ID_MFG_PROD_RECORDS :: u8 where "KB_ATTR_ID_MFG_PROD_RECORDS = 0x20"
definition KB_ATTR_ID_ALIVE_MESSAGE_TIMEOUT_MS :: u8 where
  "KB_ATTR_ID_ALIVE_MESSAGE_TIMEOUT_MS = 0x30"
definition KB_ATTR_ID_MATRIX_SCAN_DELAY_US :: u8 where "KB_ATTR_ID_MATRIX_SCAN_DELAY_US = 0x31"
definition KB_ATTR_ID_KEY_DEBOUNCE_TIME_MS :: u8 where "KB_ATTR_ID_KEY_DEBOUNCE_TIME_MS = 0x40"
definition KB_ATTR_ID_DEBOUNCE_TIME_PRECISION_MS :: u8 where
  "KB_ATTR_ID_DEBOUNCE_TIME_PRECISION_MS = 0x41"
definition KB_ATTR_ID_BACKLIGHT_RANGE :: u8 where "KB_ATTR_ID_BACKLIGHT_RANGE = 0x50"
definition KB_ATTR_ID_BKL_COEFF :: u8 where "KB_ATTR_ID_BKL_COEFF = 0x51"
definition KB_ATTR_ID_BKL_BRIGHTNESS :: u8 where "KB_ATTR_ID_BKL_BRIGHTNESS = 0x52"
definition KB_ATTR_ID_KEY_LIGHT_CAPS :: u8 where "KB_ATTR_ID_KEY_LIGHT_CAPS = 0x53"
definition KB_ATTR_ID_KEY_LIGHT_RM :: u8 where "KB_ATTR_ID_KEY_LIGHT_RM = 0x54"

subsection \<open>The attribute protocol's data (rm_hwmon_api.h)\<close>

text \<open>
  The header that declares the wire types, \<open>struct attribute_rx\<close>, \<open>struct attribute_tx\<close>
  and the macro \<open>MAKE_READER\<close> is not part of the source file. The storage types are the
  enumerators the driver names; \<open>ATTRIBUTE_STORAGE_DATA_OTHER\<close> stands for every tag of the
  enumeration that the driver does not name.
\<close>

datatype attribute_storage_type =
    ATTRIBUTE_STORAGE_DATA_UNSIGNED_8_BIT
  | ATTRIBUTE_STORAGE_DATA_ENUM_8_BIT
  | ATTRIBUTE_STORAGE_DATA_CHARACTER_STRING
  | ATTRIBUTE_STORAGE_DATA_UNSIGNED_16_BIT
  | ATTRIBUTE_STORAGE_DATA_UNSIGNED_32_BIT
  | ATTRIBUTE_STORAGE_DATA_32_BIT
  | ATTRIBUTE_STORAGE_DATA_ARRAY
  | ATTRIBUTE_STORAGE_DATA_BOOLEAN
  | ATTRIBUTE_STORAGE_DATA_OTHER u8

text \<open>
  A received attribute. \<open>data\<close> is a union in C: each member the driver reads is a field
  here, read as the driver reads it; how the members overlap in memory is not modelled.
  \<open>rx_type\<close> is the wire type the response carries.
\<close>

record attribute_rx =
  rx_id :: u8
  rx_type :: attribute_storage_type
  u8_data :: u8
  u16_data :: u16
  u32_data :: u32
  bool_data :: bool
  array_subtype :: attribute_storage_type
  array_n_len :: nat
  array_data :: "u8 list"
  octets_str_len :: nat
  octets_str :: "u8 list"

text \<open>A request to write: the member of the union that the driver fills in.\<close>

datatype attribute_tx =
    Tx_u8_data u8
  | Tx_array attribute_storage_type nat "u8 list"

subsection \<open>The driver state\<close>

text \<open>
  \<open>struct fw_version\<close> (rm_hwmon_fwu.h) is two bytes, major and minor. It is kept as its
  two-byte memory image: that is how \<open>reader_fw_version\<close> stores it (a cast of the
  attribute's 16-bit datum) and how \<open>memcmp\<close> compares it.
\<close>

type_synonym fw_version = u16

text \<open>\<open>struct firmware_update\<close> (rm_hwmon_fwu.h): the members the driver touches.\<close>

record firmware_update =
  header_fw_version :: fw_version
  current_fw_version :: fw_version
  current_image_start_address :: u32
  max_packet_size :: nat
  endpoint_keyboard :: bool

text \<open>
  A string that the driver keeps is a block of device-managed memory (\<open>devm_krealloc\<close>):
  its address, the number of bytes the block can hold (what \<open>ksize\<close> reports, less the
  header of the device resource), and the bytes that the driver wrote at its start, the
  terminating zero included. A \<open>char *\<close> is \<open>None\<close> when NULL, else the block it points to.
\<close>

record octet_block =
  block_addr :: nat
  block_size :: nat
  block_bytes :: "u8 list"

text \<open>
  \<open>struct input_dev\<close>: what the driver sets. \<open>keycode\<close> is the table that
  \<open>matrix_keypad_build_keymap\<close> builds; \<open>registered\<close> holds after
  \<open>input_register_device\<close> succeeded. \<open>dev_uniq\<close> is the pointer that the driver stores in
  \<open>uniq\<close>, as the address it holds (\<open>None\<close> for NULL): the device shares the block with
  \<open>rm_serial_number\<close> and reads it through that address.
\<close>

record input_dev =
  dev_name :: string
  dev_phys :: string
  dev_uniq :: "nat option"
  keycode :: "u16 list"
  evbit :: "nat set"
  ledbit :: "nat set"
  registered :: bool

text \<open>\<open>struct kb_attr_write\<close>: \<open>request\<close> is \<open>None\<close> for the NULL pointer.\<close>

record kb_attr_write =
  request :: "attribute_tx option"
  attribute :: u8
  data_length :: nat

text \<open>
  \<open>struct kb_data\<close>. A pointer that may be NULL is an option; the device pointers, the
  work items and the mutex have no contents of their own here.
\<close>

record kb_data =
  kb_dev :: "input_dev option"
  attr_writer :: kb_attr_write
  kb_row_shift :: int
  key_layout :: u8
  language :: u8
  rm_serial_number :: "octet_block option"
  cn_serial_number :: "octet_block option"
  mfg_prod_records :: u8
  device_name :: "octet_block option"
  git_info :: u32
  bl_brightness :: int
  bl_brightness_array :: "u8 list"
  is_image_valid :: bool
  rm_key_light :: bool
  caps_key_light :: bool
  rm_key_on_after_resume :: bool
  fwu :: firmware_update

text \<open>\<open>struct rm_hwmon_kb_keymap_data\<close>, without the key table itself.\<close>

record rm_hwmon_kb_keymap_data =
  keymap_size :: nat
  keymap_row :: u8
  keymap_col :: u8

text \<open>\<open>struct rm_hwmon_kb_key_event\<close>: bit fields of 1, 3 and 4 bits, and a byte.\<close>

record rm_hwmon_kb_key_event =
  pressed :: "1 word"
  row :: "3 word"
  column :: "4 word"
  seq_num :: u8

subsection \<open>Calls to the collaborators\<close>

datatype work = Kb_connect_work | Attr_writer_worker

datatype hsp_command =
    HSP_CMD_ACCS_CONNECT
  | HSP_CMD_ACCS_DISCONNECT
  | HSP_CMD_KEY_EVENT
  | HSP_CMD_ACCS_AUTHORIZE_REQUEST
  | HSP_CMD_OTHER

datatype call =
    Api_read_attributes "u8 list"
  | Api_write_cmd hsp_command
  | Api_write_attribute u8 attribute_tx nat
  | Fwu_load_and_check_for_upgrade
  | Fwu_init
  | Fwu_transfer_binary
  | Fwu_validate_image
  | Fwu_set_image_active
  | Fwu_release_firmware
  | Input_allocate_device
  | Matrix_keypad_build_keymap
  | Input_register_device
  | Input_unregister_device input_dev
  | Input_report_key u16 int
  | Input_sync
  | Schedule_work work

subsection \<open>Attribute readers\<close>

text \<open>
  What the allocator answers when it is asked for a new block: it refuses, or it grants a
  block at an address, with room for the bytes asked for and some spare bytes (the slab
  rounds the size up).
\<close>

datatype krealloc_answer = Refused | Granted nat nat

text \<open>
  \<open>devm_krealloc\<close> of the kernel (drivers/base/devres.c), for a size above zero. For a
  NULL pointer it allocates. For a block that can hold the new size it returns the same
  pointer and allocates nothing, so it cannot fail there. Otherwise it allocates a new
  block, copies the old contents into it and frees the old block; when the allocation is
  refused it returns NULL and leaves the old block as it is.
\<close>

definition devm_krealloc ::
  "krealloc_answer \<Rightarrow> octet_block option \<Rightarrow> nat \<Rightarrow> octet_block option" where
  "devm_krealloc al ptr new_size =
     (case ptr of
        None \<Rightarrow>
          (case al of
             Refused \<Rightarrow> None
           | Granted addr spare \<Rightarrow>
               Some \<lparr>block_addr = addr, block_size = new_size + spare, block_bytes = []\<rparr>)
      | Some b \<Rightarrow>
          if new_size \<le> block_size b then Some b
          else
            (case al of
               Refused \<Rightarrow> None
             | Granted addr spare \<Rightarrow>
                 Some \<lparr>block_addr = addr, block_size = new_size + spare,
                       block_bytes = block_bytes b\<rparr>))"

text \<open>
  A reader gets the driver state and the received attribute, and returns whether it
  accepted the attribute, with the new state. Its first argument is what the allocator
  answers if it is asked for a block during the call; only \<open>reader_octet_attribute\<close>
  allocates.
\<close>

type_synonym reader = "krealloc_answer \<Rightarrow> kb_data \<Rightarrow> attribute_rx \<Rightarrow> bool \<times> kb_data"

text \<open>
  Modelled from the spec: the macro \<open>MAKE_READER(name, field, type, member)\<close> of
  rm_hwmon_api.h is not in the source file. It defines \<open>reader_name\<close>, which stores the
  \<open>field\<close> member of the received datum in \<open>member\<close> of the client structure, bit for bit,
  and accepts.
\<close>

definition reader_key_layout :: reader where
  "reader_key_layout al pdata attr_res = (True, pdata\<lparr>key_layout := u8_data attr_res\<rparr>)"

definition reader_language :: reader where
  "reader_language al pdata attr_res = (True, pdata\<lparr>language := u8_data attr_res\<rparr>)"

definition reader_image_start_address :: reader where
  "reader_image_start_address al pdata attr_res =
     (True, pdata\<lparr>fwu := (fwu pdata)\<lparr>current_image_start_address := u32_data attr_res\<rparr>\<rparr>)"

definition reader_git_info :: reader where
  "reader_git_info al pdata attr_res = (True, pdata\<lparr>git_info := u32_data attr_res\<rparr>)"

definition reader_valid_image :: reader where
  "reader_valid_image al pdata attr_res = (True, pdata\<lparr>is_image_valid := bool_data attr_res\<rparr>)"

definition reader_prod_records :: reader where
  "reader_prod_records al pdata attr_res = (True, pdata\<lparr>mfg_prod_records := u8_data attr_res\<rparr>)"

definition reader_rm_key_light :: reader where
  "reader_rm_key_light al pdata attr_res = (True, pdata\<lparr>rm_key_light := bool_data attr_res\<rparr>)"

definition reader_caps_key_light :: reader where
  "reader_caps_key_light al pdata attr_res =
     (True, pdata\<lparr>caps_key_light := bool_data attr_res\<rparr>)"

definition reader_fw_version :: reader where
  "reader_fw_version al pdata attr_res =
     (True, pdata\<lparr>fwu := (fwu pdata)\<lparr>current_fw_version := u16_data attr_res\<rparr>\<rparr>)"

text \<open>
  The copy loop of \<open>reader_bl_brightness_array\<close>, \<open>i\<close> from its start value up to
  \<open>ATTRIBUTES_NR_OF_BKLS\<close>.
\<close>

function copy_brightness :: "nat \<Rightarrow> u8 list \<Rightarrow> u8 list \<Rightarrow> u8 list" where
  "copy_brightness i src dst =
     (if i < ATTRIBUTES_NR_OF_BKLS then copy_brightness (Suc i) src (dst[i := src ! i])
      else dst)"
  by pat_completeness auto
termination
  by (relation "measure (\<lambda>(i, src, dst). ATTRIBUTES_NR_OF_BKLS - i)") auto

declare copy_brightness.simps [simp del]

definition reader_bl_brightness_array :: reader where
  "reader_bl_brightness_array al pdata attr_res =
     (if array_subtype attr_res \<noteq> ATTRIBUTE_STORAGE_DATA_UNSIGNED_8_BIT then (False, pdata)
      else if array_n_len attr_res \<noteq> ATTRIBUTES_NR_OF_BKLS then (False, pdata)
      else (True, pdata\<lparr>bl_brightness_array :=
              copy_brightness 0 (array_data attr_res) (bl_brightness_array pdata)\<rparr>))"

text \<open>
  \<open>reader_octet_attribute\<close>. \<open>octet_attribute\<close> selects the destination pointer. The
  driver asks \<open>devm_krealloc\<close> for \<open>str_len + 1\<close> bytes and assigns the result to the
  destination before it tests it: when \<open>devm_krealloc\<close> returns NULL the destination is
  NULL. Otherwise the block holds \<open>str_len\<close> bytes of the datum and a terminating zero.
\<close>

datatype octet_target = Device_name | Rm_serial_number | Cn_serial_number

definition octet_attribute :: "u8 \<Rightarrow> octet_target option" where
  "octet_attribute i =
     (if i = KB_ATTR_ID_DEVICE_NAME then Some Device_name
      else if i = KB_ATTR_ID_RM_SERIAL_NUMBER then Some Rm_serial_number
      else if i = KB_ATTR_ID_CN_SERIAL_NUMBER then Some Cn_serial_number
      else None)"

fun octet_get :: "octet_target \<Rightarrow> kb_data \<Rightarrow> octet_block option" where
  "octet_get Device_name pdata = device_name pdata"
| "octet_get Rm_serial_number pdata = rm_serial_number pdata"
| "octet_get Cn_serial_number pdata = cn_serial_number pdata"

fun octet_set :: "octet_target \<Rightarrow> octet_block option \<Rightarrow> kb_data \<Rightarrow> kb_data" where
  "octet_set Device_name v pdata = pdata\<lparr>device_name := v\<rparr>"
| "octet_set Rm_serial_number v pdata = pdata\<lparr>rm_serial_number := v\<rparr>"
| "octet_set Cn_serial_number v pdata = pdata\<lparr>cn_serial_number := v\<rparr>"

definition reader_octet_attribute :: reader where
  "reader_octet_attribute al pdata attr_res =
     (case octet_attribute (rx_id attr_res) of
        None \<Rightarrow> (False, pdata)
      | Some tgt \<Rightarrow>
          (case devm_krealloc al (octet_get tgt pdata) (octets_str_len attr_res + 1) of
             None \<Rightarrow> (False, octet_set tgt None pdata)
           | Some b \<Rightarrow>
               (True, octet_set tgt
                  (Some (b\<lparr>block_bytes :=
                            take (octets_str_len attr_res) (octets_str attr_res) @ [0]\<rparr>))
                  pdata)))"

subsection \<open>The attribute table\<close>

record attribute_config =
  cfg_id :: u8
  cfg_type :: attribute_storage_type
  cfg_reader :: reader
  cfg_name :: string

definition attribute_configs :: "attribute_config list" where
  "attribute_configs =
   [ \<lparr>cfg_id = KB_ATTR_ID_KEY_LAYOUT, cfg_type = ATTRIBUTE_STORAGE_DATA_UNSIGNED_8_BIT,
      cfg_reader = reader_key_layout, cfg_name = ''KB_ATTR_ID_KEY_LAYOUT''\<rparr>,
     \<lparr>cfg_id = KB_ATTR_ID_LANGUAGE, cfg_type = ATTRIBUTE_STORAGE_DATA_ENUM_8_BIT,
      cfg_reader = reader_language, cfg_name = ''KB_ATTR_ID_LANGUAGE''\<rparr>,
     \<lparr>cfg_id = KB_ATTR_ID_RM_SERIAL_NUMBER, cfg_type = ATTRIBUTE_STORAGE_DATA_CHARACTER_STRING,
      cfg_reader = reader_octet_attribute, cfg_name = ''KB_ATTR_ID_RM_SERIAL_NUMBER''\<rparr>,
     \<lparr>cfg_id = KB_ATTR_ID_CN_SERIAL_NUMBER, cfg_type = ATTRIBUTE_STORAGE_DATA_CHARACTER_STRING,
      cfg_reader = reader_octet_attribute, cfg_name = ''KB_ATTR_ID_CN_SERIAL_NUMBER''\<rparr>,
     \<lparr>cfg_id = KB_ATTR_ID_MFG_PROD_RECORDS, cfg_type = ATTRIBUTE_STORAGE_DATA_UNSIGNED_8_BIT,
      cfg_reader = reader_prod_records, cfg_name = ''KB_ATTR_ID_MFG_PROD_RECORDS''\<rparr>,
     \<lparr>cfg_id = KB_ATTR_ID_FW_VERSION, cfg_type = ATTRIBUTE_STORAGE_DATA_UNSIGNED_16_BIT,
      cfg_reader = reader_fw_version, cfg_name = ''KB_ATTR_ID_FW_VERSION''\<rparr>,
     \<lparr>cfg_id = KB_ATTR_ID_IMAGE_START_ADDRESS, cfg_type = ATTRIBUTE_STORAGE_DATA_UNSIGNED_32_BIT,
      cfg_reader = reader_image_start_address, cfg_name = ''KB_ATTR_ID_IMAGE_START_ADDRESS''\<rparr>,
     \<lparr>cfg_id = KB_ATTR_ID_DEVICE_NAME, cfg_type = ATTRIBUTE_STORAGE_DATA_CHARACTER_STRING,
      cfg_reader = reader_octet_attribute, cfg_name = ''KB_ATTR_ID_DEVICE_NAME''\<rparr>,
     \<lparr>cfg_id = KB_ATTR_ID_GIT_INFO, cfg_type = ATTRIBUTE_STORAGE_DATA_32_BIT,
      cfg_reader = reader_git_info, cfg_name = ''KB_ATTR_ID_GIT_INFO''\<rparr>,
     \<lparr>cfg_id = KB_ATTR_ID_BKL_BRIGHTNESS, cfg_type = ATTRIBUTE_STORAGE_DATA_ARRAY,
      cfg_reader = reader_bl_brightness_array, cfg_name = ''KB_ATTR_ID_BKL_BRIGHTNESS''\<rparr>,
     \<lparr>cfg_id = KB_ATTR_ID_VALID_IMAGE, cfg_type = ATTRIBUTE_STORAGE_DATA_BOOLEAN,
      cfg_reader = reader_valid_image, cfg_name = ''KB_ATTR_ID_VALID_IMAGE''\<rparr>,
     \<lparr>cfg_id = KB_ATTR_ID_KEY_LIGHT_CAPS, cfg_type = ATTRIBUTE_STORAGE_DATA_BOOLEAN,
      cfg_reader = reader_rm_key_light, cfg_name = ''KB_ATTR_ID_KEY_LIGHT_CAPS''\<rparr>,
     \<lparr>cfg_id = KB_ATTR_ID_KEY_LIGHT_RM, cfg_type = ATTRIBUTE_STORAGE_DATA_BOOLEAN,
      cfg_reader = reader_caps_key_light, cfg_name = ''KB_ATTR_ID_KEY_LIGHT_RM''\<rparr> ]"

text \<open>
  Modelled from the spec: the dispatcher of inbound attribute responses lives in
  rm_hwmon_api.c, which is not in the source file. It looks the id up in the registered
  table; an unknown id is dropped; a response whose wire type is not the one registered
  for the id is rejected; otherwise the configured reader is invoked.
\<close>

definition dispatch ::
  "attribute_config list \<Rightarrow> krealloc_answer \<Rightarrow> kb_data \<Rightarrow> attribute_rx \<Rightarrow> bool \<times> kb_data"
  where
  "dispatch configs al pdata attr_res =
     (case find (\<lambda>c. cfg_id c = rx_id attr_res) configs of
        None \<Rightarrow> (False, pdata)
      | Some c \<Rightarrow>
          if cfg_type c \<noteq> rx_type attr_res then (False, pdata)
          else cfg_reader c al pdata attr_res)"


text \<open>
  What \<open>rm_hwmon_api_read_attributes\<close> answers: the responses that arrive while the call
  waits, each with the allocator's answer during its decode, and the returned status.
\<close>

record read_answer =
  responses :: "(krealloc_answer \<times> attribute_rx) list"
  read_ret :: int

text \<open>
  Modelled from the spec: \<open>rm_hwmon_api_read_attributes\<close> (rm_hwmon_api.c, not in the
  source file) requests the listed attributes from the endpoint; every response that
  arrives is dispatched through the table registered at probe time, in arrival order; the
  call returns the status of the exchange.
\<close>

definition rm_hwmon_api_read_attributes ::
  "read_answer \<Rightarrow> kb_data \<Rightarrow> u8 list \<Rightarrow> int \<times> kb_data \<times> call list" where
  "rm_hwmon_api_read_attributes a pdata ids =
     (read_ret a,
      foldl (\<lambda>p (al, attr_res). snd (dispatch attribute_configs al p attr_res)) pdata
        (responses a),
      [Api_read_attributes ids])"

subsection \<open>Status read of the language\<close>

definition sysfs_language :: "string list" where
  "sysfs_language =
     [''ILLEGAL'', ''DE'', ''ES'', ''FR'', ''IT'', ''NO'', ''PT'', ''UK'', ''US'']"

text \<open>
  \<open>language_show\<close>: \<open>Inl\<close> is the negative status returned, \<open>Inr\<close> the text that
  \<open>sprintf\<close> puts in the buffer (the returned count is its length).
\<close>

definition language_show :: "kb_data \<Rightarrow> int + string" where
  "language_show pdata =
     (if kb_dev pdata = None then Inl (- ENODEV)
      else if unat (language pdata) \<le> LANGUAGE_MIN \<or> LANGUAGE_MAX \<le> unat (language pdata)
      then Inl (- ENOEXEC)
      else Inr (sysfs_language ! unat (language pdata) @ [CHR 0x0A]))"

subsection \<open>Brightness\<close>

text \<open>
  Modelled from the spec: \<open>HEADER_SIZE_ARRAY\<close> (rm_hwmon_api.h) is the size of the array
  header, a one-byte element subtype and a one-byte element count.
\<close>

definition HEADER_SIZE_ARRAY :: nat where "HEADER_SIZE_ARRAY = 2"

record write_answer =
  buffer_granted :: bool
  write_ret :: int

function fill_brightness :: "nat \<Rightarrow> u8 \<Rightarrow> u8 list \<Rightarrow> u8 list" where
  "fill_brightness i v dst =
     (if i < ATTRIBUTES_NR_OF_BKLS then fill_brightness (Suc i) v (dst[i := v]) else dst)"
  by pat_completeness auto
termination
  by (relation "measure (\<lambda>(i, v, dst). ATTRIBUTES_NR_OF_BKLS - i)") auto

declare fill_brightness.simps [simp del]

definition rm_hwmon_keyboard_set_brightness :: "write_answer \<Rightarrow> kb_data \<Rightarrow> int \<times> call list"
  where
  "rm_hwmon_keyboard_set_brightness a pdata =
     (let data_length = HEADER_SIZE_ARRAY + 1 * ATTRIBUTES_NR_OF_BKLS in
      if \<not> buffer_granted a then (- ENOMEM, [])
      else
        let array = fill_brightness 0 (word_of_int (bl_brightness pdata))
                      (replicate ATTRIBUTES_NR_OF_BKLS 0);
            write_req = Tx_array ATTRIBUTE_STORAGE_DATA_UNSIGNED_8_BIT ATTRIBUTES_NR_OF_BKLS array
        in (write_ret a, [Api_write_attribute KB_ATTR_ID_BKL_BRIGHTNESS write_req data_length]))"

subsection \<open>Indicator changes and the single-slot writer\<close>

text \<open>
  What the collaborators answer during \<open>rm_hwmon_kb_event\<close>: whether
  \<open>rm_hwmon_api_alloc_write_buffer\<close> returns a buffer, and what \<open>schedule_work\<close> returns.
\<close>

record led_answer =
  led_buffer_granted :: bool
  work_queued :: bool

text \<open>
  \<open>rm_hwmon_kb_event\<close>. \<open>slumber\<close> is \<open>next_suspend_is_slumber\<close> of the parent's data.
  \<open>code_attribute\<close> is the first \<open>switch\<close>, \<open>None\<close> for its default case.
\<close>

definition code_attribute :: "nat \<Rightarrow> u8 option" where
  "code_attribute code =
     (if code = LED_CAPSL then Some KB_ATTR_ID_KEY_LIGHT_CAPS
      else if code = LED_MISC then Some KB_ATTR_ID_KEY_LIGHT_RM
      else None)"

definition rm_hwmon_kb_event ::
  "led_answer \<Rightarrow> bool \<Rightarrow> kb_data \<Rightarrow> nat \<Rightarrow> nat \<Rightarrow> int \<Rightarrow> int \<times> kb_data \<times> call list" where
  "rm_hwmon_kb_event a slumber pdata type code val =
     (if type \<noteq> EV_LED then (- 1, pdata, [])
      else case code_attribute code of
        None \<Rightarrow> (- 1, pdata, [])
      | Some attr \<Rightarrow>
          let pdata1 = pdata\<lparr>attr_writer := (attr_writer pdata)\<lparr>attribute := attr\<rparr>\<rparr> in
          if request (attr_writer pdata1) \<noteq> None then (- EBUSY, pdata1, [])
          else if val = 0 \<and> slumber then (0, pdata1, [])
          else
            let pdata2 = pdata1\<lparr>attr_writer := (attr_writer pdata1)\<lparr>data_length := 1\<rparr>\<rparr> in
            if \<not> led_buffer_granted a then (- ENOMEM, pdata2, [])
            else
              let pdata3 = pdata2\<lparr>attr_writer :=
                             (attr_writer pdata2)\<lparr>request := Some (Tx_u8_data (word_of_int val))\<rparr>\<rparr>
              in
              if \<not> work_queued a
              then (- 1, pdata3\<lparr>attr_writer := (attr_writer pdata3)\<lparr>request := None\<rparr>\<rparr>,
                    [Schedule_work Attr_writer_worker])
              else if code = LED_CAPSL
              then (0, pdata3\<lparr>caps_key_light := (val \<noteq> 0)\<rparr>, [Schedule_work Attr_writer_worker])
              else if code = LED_MISC
              then (0, pdata3\<lparr>rm_key_light := (val \<noteq> 0)\<rparr>, [Schedule_work Attr_writer_worker])
              else (- 1, pdata3, [Schedule_work Attr_writer_worker]))"

text \<open>
  \<open>rm_hwmon_keyboard_attribute_writer\<close>, the work function of the slot. \<open>ret\<close> is what
  \<open>rm_hwmon_api_write_attribute\<close> returns; it is only logged.
\<close>

definition rm_hwmon_keyboard_attribute_writer :: "int \<Rightarrow> kb_data \<Rightarrow> kb_data \<times> call list" where
  "rm_hwmon_keyboard_attribute_writer ret pdata =
     (case request (attr_writer pdata) of
        Some req \<Rightarrow>
          (pdata\<lparr>attr_writer := (attr_writer pdata)\<lparr>request := None\<rparr>\<rparr>,
           [Api_write_attribute (attribute (attr_writer pdata)) req
              (data_length (attr_writer pdata))])
      | None \<Rightarrow> (pdata, []))"

subsection \<open>Key events\<close>

text \<open>
  \<open>MATRIX_SCAN_CODE(row, col, row_shift)\<close> of matrix_keypad.h is
  \<open>(((row) << (row_shift)) + (col))\<close>, on C's 32-bit \<open>int\<close>.
\<close>

definition MATRIX_SCAN_CODE :: "32 word \<Rightarrow> 32 word \<Rightarrow> nat \<Rightarrow> 32 word" where
  "MATRIX_SCAN_CODE r c row_shift = push_bit row_shift r + c"

text \<open>
  \<open>rm_hwmon_keyboard_report\<close> leaves the driver state as it is; it returns its status and
  its calls. \<open>None\<close> stands for behaviour that C leaves undefined: a shift count outside
  \<open>0..31\<close>, or a read outside the keycode table of the input device.
\<close>

definition rm_hwmon_keyboard_report ::
  "kb_data \<Rightarrow> rm_hwmon_kb_key_event \<Rightarrow> (int \<times> call list) option" where
  "rm_hwmon_keyboard_report pdata event =
     (case kb_dev pdata of
        None \<Rightarrow> Some (- ENXIO, [Schedule_work Kb_connect_work])
      | Some d \<Rightarrow>
          if kb_row_shift pdata < 0 \<or> 32 \<le> kb_row_shift pdata then None
          else
            let key = sint (MATRIX_SCAN_CODE (ucast (row event)) (ucast (column event))
                              (nat (kb_row_shift pdata)))
            in
            if key < 0 \<or> int (length (keycode d)) \<le> key then None
            else Some (0, [Input_report_key (keycode d ! nat key) (uint (pressed event)),
                           Input_sync]))"

subsection \<open>Building and removing the input device\<close>

definition keymap_layouts :: "rm_hwmon_kb_keymap_data list" where
  "keymap_layouts = [\<lparr>keymap_size = 112, keymap_row = 7, keymap_col = 16\<rparr>]"

text \<open>
  \<open>get_count_order\<close> of bitops.h: \<open>-1\<close> for 0, else \<open>fls(--count)\<close>, where \<open>fls\<close> is the
  position of the highest set bit, counted from 1.
\<close>

fun fls :: "nat \<Rightarrow> nat" where
  "fls n = (if n = 0 then 0 else Suc (fls (n div 2)))"

declare fls.simps [simp del]

definition get_count_order :: "32 word \<Rightarrow> int" where
  "get_count_order count = (if count = 0 then - 1 else int (fls (unat (count - 1))))"

definition rm_hwmon_keyboard_unregister :: "kb_data \<Rightarrow> bool \<times> kb_data \<times> call list" where
  "rm_hwmon_keyboard_unregister pdata =
     (case kb_dev pdata of
        Some d \<Rightarrow>
          (True, pdata\<lparr>kb_dev := None\<rparr>,
           [Input_unregister_device (d\<lparr>ledbit := ledbit d - {LED_CAPSL, LED_MISC}\<rparr>)])
      | None \<Rightarrow> (False, pdata, []))"

text \<open>
  What the input core answers during \<open>rm_hwmon_keyboard_make_input_dev\<close>: whether
  \<open>input_allocate_device\<close> returns a device, the status of \<open>matrix_keypad_build_keymap\<close>
  and the keycode table it builds, and the status of \<open>input_register_device\<close>.
\<close>

record input_answer =
  allocated :: bool
  build_keymap_ret :: int
  built_keycode :: "u16 list"
  register_ret :: int

definition rm_hwmon_keyboard_make_input_dev ::
  "input_answer \<Rightarrow> kb_data \<Rightarrow> int \<times> kb_data \<times> call list" where
  "rm_hwmon_keyboard_make_input_dev a pdata =
     (let pdata1 = pdata\<lparr>kb_dev := None\<rparr>;
          pdata2 = (if length keymap_layouts \<le> unat (key_layout pdata1)
                    then pdata1\<lparr>key_layout := 0\<rparr> else pdata1)
      in
      if \<not> allocated a then (- EINVAL, pdata2, [Input_allocate_device])
      else
        let keymap_layout = keymap_layouts ! unat (key_layout pdata2);
            kbd = \<lparr>dev_name = ''rM_Keyboard'', dev_phys = ''pogo/input0'',
                   dev_uniq = map_option block_addr (rm_serial_number pdata2), keycode = [],
                   evbit = {}, ledbit = {}, registered = False\<rparr>;
            pdata3 = pdata2\<lparr>kb_dev := Some kbd,
                       kb_row_shift := get_count_order (ucast (keymap_col keymap_layout))\<rparr>
        in
        if build_keymap_ret a \<noteq> 0
        then (build_keymap_ret a, pdata3, [Input_allocate_device, Matrix_keypad_build_keymap])
        else
          let kbd1 = kbd\<lparr>keycode := built_keycode a, evbit := {EV_KEY, EV_REP, EV_LED},
                       ledbit := {LED_CAPSL, LED_MISC}\<rparr>
          in
          if register_ret a \<noteq> 0
          then (register_ret a, pdata3\<lparr>kb_dev := Some kbd1\<rparr>,
                [Input_allocate_device, Matrix_keypad_build_keymap, Input_register_device])
          else (0, pdata3\<lparr>kb_dev := Some (kbd1\<lparr>registered := True\<rparr>)\<rparr>,
                [Input_allocate_device, Matrix_keypad_build_keymap, Input_register_device]))"


subsection \<open>Firmware update\<close>

definition init_attr :: "u8 list" where
  "init_attr =
     [KB_ATTR_ID_KEY_LAYOUT, KB_ATTR_ID_LANGUAGE, KB_ATTR_ID_FW_VERSION, KB_ATTR_ID_GIT_INFO,
      KB_ATTR_ID_IMAGE_START_ADDRESS, KB_ATTR_ID_DEVICE_NAME, KB_ATTR_ID_VALID_IMAGE,
      KB_ATTR_ID_RM_SERIAL_NUMBER]"

definition rm_hwmon_keyboard_read_init_attributes ::
  "read_answer \<Rightarrow> kb_data \<Rightarrow> int \<times> kb_data \<times> call list" where
  "rm_hwmon_keyboard_read_init_attributes a pdata =
     rm_hwmon_api_read_attributes a pdata init_attr"

text \<open>
  \<open>memcmp\<close> (lib/string.c): zero when the two areas agree, else the difference of the
  first two bytes that differ. \<open>fw_version_bytes\<close> is the memory image of a
  \<open>struct fw_version\<close>, low byte first.
\<close>

fun memcmp :: "u8 list \<Rightarrow> u8 list \<Rightarrow> int" where
  "memcmp (a # as) (b # bs) = (if a = b then memcmp as bs else uint a - uint b)"
| "memcmp _ _ = 0"

definition fw_version_bytes :: "fw_version \<Rightarrow> u8 list" where
  "fw_version_bytes v = [ucast v, ucast (drop_bit 8 v)]"

text \<open>
  What the firmware updater (rm_hwmon_fwu.c) answers during
  \<open>rm_hwmon_keyboard_update_fwu\<close>. Each of its functions gets the
  \<open>struct firmware_update\<close> by reference: it returns a status and the structure as it
  leaves it. \<open>reread\<close> answers the read of the initial attributes that follows validation.
\<close>

record fwu_answer =
  rm_hwmon_fwu_init :: "firmware_update \<Rightarrow> int \<times> firmware_update"
  rm_hwmon_fwu_transfer_binary :: "firmware_update \<Rightarrow> int \<times> firmware_update"
  rm_hwmon_fwu_validate_image :: "firmware_update \<Rightarrow> int \<times> firmware_update"
  reread :: read_answer
  rm_hwmon_fwu_set_image_active :: "firmware_update \<Rightarrow> int \<times> firmware_update"

definition rm_hwmon_keyboard_update_fwu ::
  "fwu_answer \<Rightarrow> kb_data \<Rightarrow> int \<times> kb_data \<times> call list" where
  "rm_hwmon_keyboard_update_fwu a pdata =
     (let (ret, f) = rm_hwmon_fwu_init a (fwu pdata); pdata = pdata\<lparr>fwu := f\<rparr> in
      if ret \<noteq> 0 then (ret, pdata, [Fwu_init])
      else
        let (ret, f) = rm_hwmon_fwu_transfer_binary a (fwu pdata); pdata = pdata\<lparr>fwu := f\<rparr> in
        if ret \<noteq> 0 then (ret, pdata, [Fwu_init, Fwu_transfer_binary])
        else
          let (ret, f) = rm_hwmon_fwu_validate_image a (fwu pdata); pdata = pdata\<lparr>fwu := f\<rparr>
          in
          if ret \<noteq> 0 then (ret, pdata, [Fwu_init, Fwu_transfer_binary, Fwu_validate_image])
          else
            let (ret, pdata, rd) = rm_hwmon_keyboard_read_init_attributes (reread a) pdata in
            if ret \<noteq> 0
            then (ret, pdata, [Fwu_init, Fwu_transfer_binary, Fwu_validate_image] @ rd)
            else
              let ret = memcmp (fw_version_bytes (header_fw_version (fwu pdata)))
                          (fw_version_bytes (current_fw_version (fwu pdata)))
              in
              if ret \<noteq> 0
              then (ret, pdata, [Fwu_init, Fwu_transfer_binary, Fwu_validate_image] @ rd)
              else
                let (ret, f) = rm_hwmon_fwu_set_image_active a (fwu pdata);
                    pdata = pdata\<lparr>fwu := f\<rparr>
                in (ret, pdata,
                    [Fwu_init, Fwu_transfer_binary, Fwu_validate_image] @ rd
                    @ [Fwu_set_image_active]))"

subsection \<open>The connect sequence\<close>

text \<open>
  What the collaborators answer during one run of \<open>rm_hwmon_keyboard_register\<close>, by call
  site: the read of the initial attributes, the first authorize request, the input core
  (\<open>rm_hwmon_keyboard_make_input_dev\<close> runs at most once in a run), the first brightness
  write, the firmware provider (\<open>rm_hwmon_fwu_load_and_check_for_upgrade\<close> gets the
  structure and the device name, and says whether an upgrade is due;
  \<open>rm_hwmon_fwu_release_firmware\<close>), the updater, the second authorize request and the
  second brightness write.
\<close>

record connect_answer =
  init_read :: read_answer
  authorize_ret :: int
  input :: input_answer
  brightness :: write_answer
  rm_hwmon_fwu_load_and_check_for_upgrade ::
    "firmware_update \<Rightarrow> octet_block option \<Rightarrow> bool \<times> firmware_update"
  update :: fwu_answer
  rm_hwmon_fwu_release_firmware :: "firmware_update \<Rightarrow> firmware_update"
  reauthorize_ret :: int
  brightness_again :: write_answer

text \<open>The label \<open>kb_fail_register\<close>, followed by \<open>unlock_mutex\<close>.\<close>

definition kb_fail_register :: "int \<Rightarrow> kb_data \<Rightarrow> call list \<Rightarrow> int \<times> kb_data \<times> call list" where
  "kb_fail_register ret pdata tr =
     (case kb_dev pdata of
        Some d \<Rightarrow>
          (ret, pdata\<lparr>kb_dev := None\<rparr>,
           tr @ [Input_unregister_device (d\<lparr>ledbit := ledbit d - {LED_CAPSL, LED_MISC}\<rparr>)])
      | None \<Rightarrow> (ret, pdata\<lparr>kb_dev := None\<rparr>, tr))"

text \<open>
  \<open>rm_hwmon_keyboard_register\<close>, cut at its four blocks. Each block gets the locals that
  are live at its start (\<open>ret\<close>, \<open>auth_successful\<close>, \<open>fw_upgraded\<close>, \<open>input_dev_ok\<close>), the
  state and the calls made so far. \<open>register_input\<close> is the block \<open>if (!input_dev_ok)\<close>
  and the successful return.
\<close>

definition register_input ::
  "connect_answer \<Rightarrow> int \<Rightarrow> bool \<Rightarrow> kb_data \<Rightarrow> call list \<Rightarrow> int \<times> kb_data \<times> call list" where
  "register_input e ret input_dev_ok pdata tr =
     (if \<not> input_dev_ok then
        let (ret, pdata, t) = rm_hwmon_keyboard_make_input_dev (input e) pdata in
        if ret \<noteq> 0 then kb_fail_register ret pdata (tr @ t) else (ret, pdata, tr @ t)
      else (ret, pdata, tr))"

text \<open>The block \<open>if (fw_upgraded) ... else if (!auth_successful) ...\<close>.\<close>

definition register_reauthorize ::
  "connect_answer \<Rightarrow> int \<Rightarrow> bool \<Rightarrow> bool \<Rightarrow> bool \<Rightarrow> kb_data \<Rightarrow> call list
     \<Rightarrow> int \<times> kb_data \<times> call list" where
  "register_reauthorize e ret auth_successful fw_upgraded input_dev_ok pdata tr =
     (if fw_upgraded then
        let ret = reauthorize_ret e; tr = tr @ [Api_write_cmd HSP_CMD_ACCS_AUTHORIZE_REQUEST] in
        if ret \<noteq> 0 then kb_fail_register ret pdata tr
        else
          let (ret, t) = rm_hwmon_keyboard_set_brightness (brightness_again e) pdata in
          register_input e ret input_dev_ok pdata (tr @ t)
      else if \<not> auth_successful then kb_fail_register ret pdata tr
      else register_input e ret input_dev_ok pdata tr)"

text \<open>The block \<open>if (rm_hwmon_fwu_load_and_check_for_upgrade(...))\<close>.\<close>

definition register_upgrade ::
  "connect_answer \<Rightarrow> int \<Rightarrow> bool \<Rightarrow> bool \<Rightarrow> kb_data \<Rightarrow> call list \<Rightarrow> int \<times> kb_data \<times> call list"
  where
  "register_upgrade e ret auth_successful input_dev_ok pdata tr =
     (let (due, f) = rm_hwmon_fwu_load_and_check_for_upgrade e (fwu pdata) (device_name pdata);
          pdata = pdata\<lparr>fwu := f\<rparr>;
          tr = tr @ [Fwu_load_and_check_for_upgrade]
      in
      if due then
        let (ret, pdata, t) = rm_hwmon_keyboard_update_fwu (update e) pdata;
            pdata = pdata\<lparr>fwu := rm_hwmon_fwu_release_firmware e (fwu pdata)\<rparr>;
            tr = tr @ t @ [Fwu_release_firmware]
        in register_reauthorize e ret auth_successful (ret = 0) input_dev_ok pdata tr
      else register_reauthorize e ret auth_successful False input_dev_ok pdata tr)"

text \<open>The authorize request and its two branches.\<close>

definition register_authorize ::
  "connect_answer \<Rightarrow> kb_data \<Rightarrow> call list \<Rightarrow> int \<times> kb_data \<times> call list" where
  "register_authorize e pdata tr =
     (let ret = authorize_ret e; tr = tr @ [Api_write_cmd HSP_CMD_ACCS_AUTHORIZE_REQUEST] in
      if ret \<noteq> 0 then register_upgrade e ret False False pdata tr
      else
        let (ret, pdata, t) = rm_hwmon_keyboard_make_input_dev (input e) pdata in
        if ret \<noteq> 0 then kb_fail_register ret pdata (tr @ t)
        else
          let (ret, t') = rm_hwmon_keyboard_set_brightness (brightness e) pdata in
          register_upgrade e ret True True pdata (tr @ t @ t'))"

definition rm_hwmon_keyboard_register ::
  "connect_answer \<Rightarrow> kb_data \<Rightarrow> int \<times> kb_data \<times> call list" where
  "rm_hwmon_keyboard_register e pdata =
     (let (removed, pdata, t0) = rm_hwmon_keyboard_unregister pdata;
          pdata = pdata\<lparr>rm_key_light := False, caps_key_light := False,
                    rm_key_on_after_resume := False\<rparr>;
          (ret, pdata, t1) = rm_hwmon_keyboard_read_init_attributes (init_read e) pdata
      in
      if ret \<noteq> 0 then (ret, pdata, t0 @ t1)
      else register_authorize e pdata (t0 @ t1))"


subsection \<open>States and inputs for worked examples\<close>

text \<open>
  The state that \<open>rm_hwmon_keyboard_probe\<close> leaves: zeroed by \<open>devm_kzalloc\<close>, with the
  packet size and the endpoint of the updater set.
\<close>

definition probe_kb_data :: kb_data where
  "probe_kb_data =
     \<lparr>kb_dev = None,
      attr_writer = \<lparr>request = None, attribute = 0, data_length = 0\<rparr>,
      kb_row_shift = 0, key_layout = 0, language = 0,
      rm_serial_number = None, cn_serial_number = None, mfg_prod_records = 0,
      device_name = None, git_info = 0, bl_brightness = 0,
      bl_brightness_array = replicate ATTRIBUTES_NR_OF_BKLS 0,
      is_image_valid = False, rm_key_light = False, caps_key_light = False,
      rm_key_on_after_resume = False,
      fwu = \<lparr>header_fw_version = 0, current_fw_version = 0, current_image_start_address = 0,
             max_packet_size = FWU_MAX_PACKET_SIZE, endpoint_keyboard = True\<rparr>\<rparr>"

definition zero_rx :: attribute_rx where
  "zero_rx =
     \<lparr>rx_id = 0, rx_type = ATTRIBUTE_STORAGE_DATA_UNSIGNED_8_BIT, u8_data = 0, u16_data = 0,
      u32_data = 0, bool_data = False, array_subtype = ATTRIBUTE_STORAGE_DATA_UNSIGNED_8_BIT,
      array_n_len = 0, array_data = [], octets_str_len = 0, octets_str = []\<rparr>"

text \<open>
  A device-name response carrying the string \<open>s\<close>, and the probe state after the name
  "KB" was decoded into a block that can hold 128 bytes.
\<close>

definition device_name_rx :: "u8 list \<Rightarrow> attribute_rx" where
  "device_name_rx s =
     zero_rx\<lparr>rx_id := KB_ATTR_ID_DEVICE_NAME, rx_type := ATTRIBUTE_STORAGE_DATA_CHARACTER_STRING,
       octets_str_len := length s, octets_str := s\<rparr>"

definition named_kb_data :: kb_data where
  "named_kb_data =
     probe_kb_data\<lparr>device_name :=
       Some \<lparr>block_addr = 4096, block_size = 128, block_bytes = [0x4B, 0x42, 0]\<rparr>\<rparr>"

text \<open>A registered input device whose keycode table has \<open>KEY_P\<close> (25) at row 6, column 10.\<close>

definition plain_input_dev :: input_dev where
  "plain_input_dev =
     \<lparr>dev_name = ''rM_Keyboard'', dev_phys = ''pogo/input0'', dev_uniq = None,
      keycode = (replicate 112 0)[106 := 25], evbit = {EV_KEY, EV_REP, EV_LED},
      ledbit = {LED_CAPSL, LED_MISC}, registered = True\<rparr>"

definition led_granted :: led_answer where
  "led_granted = \<lparr>led_buffer_granted = True, work_queued = True\<rparr>"

text \<open>The probe state after the caps indicator was switched on and its write queued.\<close>

definition queued_caps_on :: kb_data where
  "queued_caps_on =
     probe_kb_data\<lparr>attr_writer := \<lparr>request = Some (Tx_u8_data 1),
                                      attribute = KB_ATTR_ID_KEY_LIGHT_CAPS, data_length = 1\<rparr>,
                    caps_key_light := True\<rparr>"

text \<open>An active session: the probe state with the input device registered, row shift 4.\<close>

definition active_kb_data :: kb_data where
  "active_kb_data = probe_kb_data\<lparr>kb_dev := Some plain_input_dev, kb_row_shift := 4\<rparr>"

definition input_granted :: input_answer where
  "input_granted =
     \<lparr>allocated = True, build_keymap_ret = 0, built_keycode = (replicate 112 0)[106 := 25],
      register_ret = 0\<rparr>"

text \<open>A step of the updater that succeeds and leaves the structure as it is.\<close>

definition fwu_ok :: "firmware_update \<Rightarrow> int \<times> firmware_update" where
  "fwu_ok f = (0, f)"

text \<open>A firmware version response, and an update in which every step succeeds and the
  accessory reports version \<open>v\<close> afterwards.\<close>

definition fw_version_rx :: "u16 \<Rightarrow> attribute_rx" where
  "fw_version_rx v = zero_rx\<lparr>rx_id := KB_ATTR_ID_FW_VERSION,
      rx_type := ATTRIBUTE_STORAGE_DATA_UNSIGNED_16_BIT, u16_data := v\<rparr>"

definition update_answer :: "u16 \<Rightarrow> fwu_answer" where
  "update_answer v =
     \<lparr>rm_hwmon_fwu_init = fwu_ok, rm_hwmon_fwu_transfer_binary = fwu_ok,
      rm_hwmon_fwu_validate_image = fwu_ok,
      reread = \<lparr>responses = [(Granted 0 0, fw_version_rx v)], read_ret = 0\<rparr>,
      rm_hwmon_fwu_set_image_active = fwu_ok\<rparr>"

text \<open>The probe state with an image of version 2.1 loaded over a running version 1.0.\<close>

definition image_loaded :: kb_data where
  "image_loaded = probe_kb_data\<lparr>fwu := (fwu probe_kb_data)\<lparr>header_fw_version := 0x0201,
     current_fw_version := 0x0100\<rparr>\<rparr>"

text \<open>Answers of one connect sequence in which every call succeeds: the accessory runs
  version 1.0; in \<open>connect_upgrade_due\<close> the provider holds an image of version 2.1, in
  \<open>connect_no_upgrade\<close> it has nothing to offer.\<close>

definition write_granted :: write_answer where
  "write_granted = \<lparr>buffer_granted = True, write_ret = 0\<rparr>"

definition connect_upgrade_due :: connect_answer where
  "connect_upgrade_due =
     \<lparr>init_read = \<lparr>responses = [(Granted 0 0, fw_version_rx 0x0100)], read_ret = 0\<rparr>,
      authorize_ret = 0, input = input_granted, brightness = write_granted,
      rm_hwmon_fwu_load_and_check_for_upgrade = (\<lambda>f n. (True, f\<lparr>header_fw_version := 0x0201\<rparr>)),
      update = update_answer 0x0201,
      rm_hwmon_fwu_release_firmware = (\<lambda>f. f),
      reauthorize_ret = 0, brightness_again = write_granted\<rparr>"

definition connect_no_upgrade :: connect_answer where
  "connect_no_upgrade =
     connect_upgrade_due\<lparr>rm_hwmon_fwu_load_and_check_for_upgrade := (\<lambda>f n. (False, f))\<rparr>"

text \<open>The calls that are steps of the firmware update, and the writes of the brightness
  attribute.\<close>

definition is_update_step :: "call \<Rightarrow> bool" where
  "is_update_step c \<longleftrightarrow>
     c = Fwu_init \<or> c = Fwu_transfer_binary \<or> c = Fwu_validate_image \<or> c = Fwu_set_image_active"

fun is_brightness_write :: "call \<Rightarrow> bool" where
  "is_brightness_write (Api_write_attribute i req n) \<longleftrightarrow> i = KB_ATTR_ID_BKL_BRIGHTNESS"
| "is_brightness_write _ \<longleftrightarrow> False"

section \<open>Properties\<close>

subsection \<open>Attribute decoding\<close>

lemmas attr_id_defs =
  KB_ATTR_ID_PROTOCOL_VERSION_def KB_ATTR_ID_FW_VERSION_def KB_ATTR_ID_HW_VERSION_def
  KB_ATTR_ID_DEVICE_CLASS_def KB_ATTR_ID_DEVICE_ID_def KB_ATTR_ID_IMAGE_START_ADDRESS_def
  KB_ATTR_ID_DEVICE_NAME_def KB_ATTR_ID_GIT_INFO_def KB_ATTR_ID_VALID_IMAGE_def
  KB_ATTR_ID_KEY_LAYOUT_def KB_ATTR_ID_LANGUAGE_def KB_ATTR_ID_RM_SERIAL_NUMBER_def
  KB_ATTR_ID_CN_SERIAL_NUMBER_def KB_ATTR_ID_MFG_PROD_RECORDS_def
  KB_ATTR_ID_BKL_BRIGHTNESS_def KB_ATTR_ID_KEY_LIGHT_CAPS_def KB_ATTR_ID_KEY_LIGHT_RM_def

lemma octet_attribute_cases:
  "octet_attribute KB_ATTR_ID_DEVICE_NAME = Some Device_name"
  "octet_attribute KB_ATTR_ID_RM_SERIAL_NUMBER = Some Rm_serial_number"
  "octet_attribute KB_ATTR_ID_CN_SERIAL_NUMBER = Some Cn_serial_number"
  by (simp_all add: octet_attribute_def attr_id_defs)

text \<open>
  Every reader but \<open>reader_octet_attribute\<close> leaves the state as it was when it rejects
  the attribute, and so does \<open>reader_octet_attribute\<close> when the allocator grants what it
  is asked for. When the new string fits the block that the destination points to, the
  decode succeeds in place whatever the allocator would answer.
\<close>

lemma make_reader_accepts:
  "fst (reader_key_layout al pdata attr_res)"
  "fst (reader_language al pdata attr_res)"
  "fst (reader_image_start_address al pdata attr_res)"
  "fst (reader_git_info al pdata attr_res)"
  "fst (reader_valid_image al pdata attr_res)"
  "fst (reader_prod_records al pdata attr_res)"
  "fst (reader_rm_key_light al pdata attr_res)"
  "fst (reader_caps_key_light al pdata attr_res)"
  "fst (reader_fw_version al pdata attr_res)"
  by (simp_all add: reader_key_layout_def reader_language_def reader_image_start_address_def
      reader_git_info_def reader_valid_image_def reader_prod_records_def
      reader_rm_key_light_def reader_caps_key_light_def reader_fw_version_def)

lemma brightness_array_reject_keeps_state:
  "reader_bl_brightness_array al pdata attr_res = (False, p) \<Longrightarrow> p = pdata"
  by (auto simp: reader_bl_brightness_array_def split: if_splits)

lemma octet_reject_keeps_state_when_granted:
  "reader_octet_attribute (Granted addr spare) pdata attr_res = (False, p) \<Longrightarrow> p = pdata"
  by (auto simp: reader_octet_attribute_def devm_krealloc_def split: option.splits if_splits)

lemma octet_decode_fits_old_block:
  "octet_attribute (rx_id attr_res) = Some tgt \<Longrightarrow> octet_get tgt pdata = Some b \<Longrightarrow>
   octets_str_len attr_res + 1 \<le> block_size b \<Longrightarrow>
   reader_octet_attribute al pdata attr_res =
     (True, octet_set tgt
        (Some (b\<lparr>block_bytes := take (octets_str_len attr_res) (octets_str attr_res) @ [0]\<rparr>))
        pdata)"
  by (simp add: reader_octet_attribute_def devm_krealloc_def)

lemma octet_alloc_failure_clears:
  "octet_attribute (rx_id attr_res) = Some tgt \<Longrightarrow>
   devm_krealloc al (octet_get tgt pdata) (octets_str_len attr_res + 1) = None \<Longrightarrow>
   reader_octet_attribute al pdata attr_res = (False, octet_set tgt None pdata)"
  by (simp add: reader_octet_attribute_def)

lemma devm_krealloc_refused_iff:
  "devm_krealloc al ptr new_size = None \<longleftrightarrow>
     al = Refused \<and> (case ptr of None \<Rightarrow> True | Some b \<Rightarrow> block_size b < new_size)"
  by (auto simp: devm_krealloc_def split: option.splits krealloc_answer.splits)

text \<open>
  C2. The claim is that a decode that returns false leaves the target field as it was, in
  particular that an octet-string decode that fails on allocation failure leaves the
  destination pointer holding its previous value. The code assigns the result of
  \<open>devm_krealloc\<close> to the destination before testing it. The name "KB" is decoded first,
  into a block that can hold 128 bytes. A device-name response with a name of 128 bytes
  needs 129: \<open>devm_krealloc\<close> has to allocate, the allocator refuses, the decode returns
  false and the device name is NULL afterwards, instead of the block holding "KB". The
  same holds for every block and every name at least as long as the block is large.
\<close>

theorem octet_decode_alloc_failure:
  "reader_octet_attribute (Granted 4096 125) probe_kb_data (device_name_rx [0x4B, 0x42])
     = (True, named_kb_data) \<and>
   reader_octet_attribute Refused named_kb_data (device_name_rx (replicate 128 0x4B))
     = (False, named_kb_data\<lparr>device_name := None\<rparr>) \<and>
   reader_octet_attribute Refused (pdata\<lparr>device_name := Some b\<rparr>)
     (attr_res\<lparr>rx_id := KB_ATTR_ID_DEVICE_NAME, octets_str_len := block_size b + k\<rparr>)
     = (False, pdata\<lparr>device_name := None\<rparr>)"
  by (simp add: reader_octet_attribute_def octet_attribute_cases devm_krealloc_def
      device_name_rx_def named_kb_data_def probe_kb_data_def)

text \<open>
  C8. A brightness-array decode whose payload has an element subtype other than unsigned
  8-bit, or an element count other than the 6 slots, returns false and leaves the state,
  and with it every element of the brightness array, as it was.
\<close>

theorem brightness_array_mismatch_rejected:
  "array_subtype attr_res \<noteq> ATTRIBUTE_STORAGE_DATA_UNSIGNED_8_BIT
     \<or> array_n_len attr_res \<noteq> ATTRIBUTES_NR_OF_BKLS \<Longrightarrow>
   reader_bl_brightness_array al pdata attr_res = (False, pdata) \<and>
   bl_brightness_array (snd (reader_bl_brightness_array al pdata attr_res)) =
     bl_brightness_array pdata"
  by (auto simp: reader_bl_brightness_array_def)

theorem brightness_array_mismatch_rejected_witness:
  "array_n_len (zero_rx\<lparr>array_n_len := 5, array_data := [1, 2, 3, 4, 5]\<rparr>) \<noteq> ATTRIBUTES_NR_OF_BKLS
   \<and> reader_bl_brightness_array (Granted 0 0) probe_kb_data
        (zero_rx\<lparr>array_n_len := 5, array_data := [1, 2, 3, 4, 5]\<rparr>) = (False, probe_kb_data)"
  using brightness_array_mismatch_rejected
    [of "zero_rx\<lparr>array_n_len := 5, array_data := [1, 2, 3, 4, 5]\<rparr>" "Granted 0 0"
        probe_kb_data]
  by (simp add: ATTRIBUTES_NR_OF_BKLS_def zero_rx_def)

subsection \<open>Language status read\<close>

lemma sysfs_language_nth:
  "1 \<le> n \<Longrightarrow> n \<le> 8 \<Longrightarrow> sysfs_language ! n \<in> set (tl sysfs_language)"
proof -
  assume n: "1 \<le> n" "n \<le> 8"
  have len: "length (tl sysfs_language) = 8" by (simp add: sysfs_language_def)
  from n have "tl sysfs_language ! (n - 1) = sysfs_language ! n"
    by (simp add: nth_tl sysfs_language_def)
  moreover from n len have "tl sysfs_language ! (n - 1) \<in> set (tl sysfs_language)"
    by (intro nth_mem) simp
  ultimately show ?thesis by simp
qed

text \<open>
  C9, as stated: the language read returns a name of the table exactly when the code is in
  1..8. It fails in a state with no input device: the code is 3 and the read returns
  \<open>-ENODEV\<close>.
\<close>

theorem language_show_counterexample:
  "1 \<le> unat (language (probe_kb_data\<lparr>language := 3\<rparr>)) \<and>
   unat (language (probe_kb_data\<lparr>language := 3\<rparr>)) \<le> 8 \<and>
   language_show (probe_kb_data\<lparr>language := 3\<rparr>) = Inl (- ENODEV)"
  by (simp add: language_show_def probe_kb_data_def)

text \<open>
  C9, amended. With no input device registered the language read returns \<open>-ENODEV\<close>
  whatever the code. With an input device registered it returns the name of the code, one
  of the eight names after "ILLEGAL" in the table, followed by a newline, when the code is
  in 1..8, and \<open>-ENOEXEC\<close> for every other code, 0 and 9 among them.
\<close>

theorem language_show_by_state:
  "(kb_dev pdata = None \<longrightarrow> language_show pdata = Inl (- ENODEV)) \<and>
   (kb_dev pdata \<noteq> None \<longrightarrow>
      (1 \<le> unat (language pdata) \<and> unat (language pdata) \<le> 8 \<longrightarrow>
         language_show pdata = Inr (sysfs_language ! unat (language pdata) @ [CHR 0x0A]) \<and>
         sysfs_language ! unat (language pdata) \<in> set (tl sysfs_language)) \<and>
      (\<not> (1 \<le> unat (language pdata) \<and> unat (language pdata) \<le> 8) \<longrightarrow>
         language_show pdata = Inl (- ENOEXEC)))"
  using sysfs_language_nth [of "unat (language pdata)"]
  by (auto simp: language_show_def LANGUAGE_MIN_def LANGUAGE_MAX_def)

theorem language_show_by_state_witness:
  "kb_dev (probe_kb_data\<lparr>kb_dev := Some plain_input_dev, language := 3\<rparr>) \<noteq> None \<and>
   language_show (probe_kb_data\<lparr>kb_dev := Some plain_input_dev, language := 3\<rparr>)
     = Inr (''FR'' @ [CHR 0x0A]) \<and>
   language_show (probe_kb_data\<lparr>kb_dev := Some plain_input_dev, language := 9\<rparr>)
     = Inl (- ENOEXEC) \<and>
   language_show (probe_kb_data\<lparr>kb_dev := Some plain_input_dev, language := 0\<rparr>)
     = Inl (- ENOEXEC) \<and>
   kb_dev (probe_kb_data\<lparr>language := 8\<rparr>) = None \<and>
   language_show (probe_kb_data\<lparr>language := 8\<rparr>) = Inl (- ENODEV)"
  using language_show_by_state [of "probe_kb_data\<lparr>kb_dev := Some plain_input_dev, language := 3\<rparr>"]
    language_show_by_state [of "probe_kb_data\<lparr>kb_dev := Some plain_input_dev, language := 9\<rparr>"]
    language_show_by_state [of "probe_kb_data\<lparr>kb_dev := Some plain_input_dev, language := 0\<rparr>"]
    language_show_by_state [of "probe_kb_data\<lparr>language := 8\<rparr>"]
  by (simp add: probe_kb_data_def sysfs_language_def)


subsection \<open>Indicator changes\<close>

lemma code_attribute_cases:
  "code_attribute LED_CAPSL = Some KB_ATTR_ID_KEY_LIGHT_CAPS"
  "code_attribute LED_MISC = Some KB_ATTR_ID_KEY_LIGHT_RM"
  by (simp_all add: code_attribute_def LED_CAPSL_def LED_MISC_def)

text \<open>
  C4, as stated: the off transition before a slumber is suppressed for the rM indicator
  only, not for the caps indicator. The code does not look at the indicator: with the caps
  indicator on, its off transition before a slumber returns 0, submits no write and leaves
  the cached caps state on.
\<close>

theorem caps_off_during_slumber_counterexample:
  "rm_hwmon_kb_event led_granted True (probe_kb_data\<lparr>caps_key_light := True\<rparr>)
     EV_LED LED_CAPSL 0 =
   (0, probe_kb_data\<lparr>caps_key_light := True,
         attr_writer := \<lparr>request = None, attribute = KB_ATTR_ID_KEY_LIGHT_CAPS,
                          data_length = 0\<rparr>\<rparr>,
    [])"
  by (simp add: rm_hwmon_kb_event_def code_attribute_cases probe_kb_data_def)

text \<open>
  C4, amended. For each of the two indicators (caps and rM), an off transition (value
  zero) that arrives when the next suspend is a slumber and no write is pending is
  suppressed: the handler returns 0 without allocating a buffer or scheduling the writer,
  the slot stays free, and the cached states of both indicators are as before; only the
  attribute id selected for the writer is set.
\<close>

theorem off_during_slumber_suppressed:
  "code = LED_CAPSL \<or> code = LED_MISC \<Longrightarrow> request (attr_writer pdata) = None \<Longrightarrow>
   rm_hwmon_kb_event a True pdata EV_LED code 0 =
     (0, pdata\<lparr>attr_writer := (attr_writer pdata)
           \<lparr>attribute := (if code = LED_CAPSL then KB_ATTR_ID_KEY_LIGHT_CAPS
                           else KB_ATTR_ID_KEY_LIGHT_RM)\<rparr>\<rparr>, []) \<and>
   caps_key_light (fst (snd (rm_hwmon_kb_event a True pdata EV_LED code 0))) =
     caps_key_light pdata \<and>
   rm_key_light (fst (snd (rm_hwmon_kb_event a True pdata EV_LED code 0))) =
     rm_key_light pdata \<and>
   request (attr_writer (fst (snd (rm_hwmon_kb_event a True pdata EV_LED code 0)))) = None"
  by (auto simp: rm_hwmon_kb_event_def code_attribute_cases)

theorem off_during_slumber_suppressed_witness:
  "request (attr_writer (probe_kb_data\<lparr>rm_key_light := True\<rparr>)) = None \<and>
   rm_hwmon_kb_event led_granted True (probe_kb_data\<lparr>rm_key_light := True\<rparr>) EV_LED LED_MISC 0 =
     (0, probe_kb_data\<lparr>rm_key_light := True,
           attr_writer := \<lparr>request = None, attribute = KB_ATTR_ID_KEY_LIGHT_RM,
                            data_length = 0\<rparr>\<rparr>, [])"
  using off_during_slumber_suppressed
    [of LED_MISC "probe_kb_data\<lparr>rm_key_light := True\<rparr>" led_granted]
  by (simp add: probe_kb_data_def LED_CAPSL_def LED_MISC_def)

subsection \<open>The single-slot writer\<close>

lemma kb_event_busy:
  "code = LED_CAPSL \<or> code = LED_MISC \<Longrightarrow> request (attr_writer pdata) \<noteq> None \<Longrightarrow>
   rm_hwmon_kb_event a sl pdata EV_LED code v = (r, p, t) \<Longrightarrow>
   r = - EBUSY \<and> t = [] \<and> request (attr_writer p) = request (attr_writer pdata)"
  by (auto simp: rm_hwmon_kb_event_def code_attribute_cases)

lemma kb_event_queued:
  "rm_hwmon_kb_event a sl pdata ty code v = (0, p, [Schedule_work Attr_writer_worker]) \<Longrightarrow>
   request (attr_writer p) = Some (Tx_u8_data (word_of_int v))"
  by (auto simp: rm_hwmon_kb_event_def Let_def split: if_splits option.splits)

lemma writer_releases:
  "rm_hwmon_keyboard_attribute_writer w pdata = (p, t) \<Longrightarrow> request (attr_writer p) = None"
  by (auto simp: rm_hwmon_keyboard_attribute_writer_def split: option.splits)

lemma kb_event_free:
  "code = LED_CAPSL \<or> code = LED_MISC \<Longrightarrow> request (attr_writer pdata) = None \<Longrightarrow>
   rm_hwmon_kb_event a sl pdata EV_LED code v = (r, p, t) \<Longrightarrow>
   r \<noteq> - EBUSY \<and> (led_buffer_granted a \<and> work_queued a \<longrightarrow> r = 0)"
  by (auto simp: rm_hwmon_kb_event_def code_attribute_cases Let_def EBUSY_def ENOMEM_def
      split: if_splits)

text \<open>
  C5. Let a first indicator event be accepted and its write queued. A second indicator
  event (for either indicator, any value) that arrives before the writer has run returns
  \<open>-EBUSY\<close>, makes no call and leaves the pending request in the slot. The writer then
  makes one transport write of the pending request and frees the slot, whatever status
  \<open>w\<close> the transport returns. An indicator event after that never returns \<open>-EBUSY\<close>, and
  returns 0 when the buffer is granted and the work is queued.
\<close>

theorem single_slot_writer:
  assumes first: "rm_hwmon_kb_event a1 sl1 pdata EV_LED c1 v1 =
                    (0, p1, [Schedule_work Attr_writer_worker])"
    and code: "c2 = LED_CAPSL \<or> c2 = LED_MISC"
    and second: "rm_hwmon_kb_event a2 sl2 p1 EV_LED c2 v2 = (r2, p2, t2)"
    and writer: "rm_hwmon_keyboard_attribute_writer w p2 = (p3, t3)"
    and third: "rm_hwmon_kb_event a3 sl3 p3 EV_LED c2 v3 = (r3, p4, t4)"
  shows "r2 = - EBUSY \<and> t2 = [] \<and>
         request (attr_writer p2) = Some (Tx_u8_data (word_of_int v1)) \<and>
         t3 = [Api_write_attribute (attribute (attr_writer p2)) (Tx_u8_data (word_of_int v1)) 1] \<and>
         request (attr_writer p3) = None \<and>
         r3 \<noteq> - EBUSY \<and> (led_buffer_granted a3 \<and> work_queued a3 \<longrightarrow> r3 = 0)"
proof -
  have q1: "request (attr_writer p1) = Some (Tx_u8_data (word_of_int v1))"
    using first by (rule kb_event_queued)
  have dl: "data_length (attr_writer p1) = 1"
    using first by (auto simp: rm_hwmon_kb_event_def Let_def split: if_splits option.splits)
  have busy: "r2 = - EBUSY \<and> t2 = [] \<and> request (attr_writer p2) = request (attr_writer p1)"
    using code q1 second by (intro kb_event_busy [of c2 p1 a2 sl2 v2]) simp_all
  have dl2: "data_length (attr_writer p2) = 1"
    using second dl code q1
    by (auto simp: rm_hwmon_kb_event_def code_attribute_cases)
  have rel: "request (attr_writer p3) = None"
    using writer by (rule writer_releases)
  have t3: "t3 = [Api_write_attribute (attribute (attr_writer p2))
                    (Tx_u8_data (word_of_int v1)) 1]"
    using writer busy q1 dl2 by (auto simp: rm_hwmon_keyboard_attribute_writer_def)
  have free: "r3 \<noteq> - EBUSY \<and> (led_buffer_granted a3 \<and> work_queued a3 \<longrightarrow> r3 = 0)"
    using code rel third by (rule kb_event_free)
  show ?thesis using q1 busy rel t3 free by simp
qed


theorem single_slot_writer_witness:
  "rm_hwmon_kb_event led_granted False probe_kb_data EV_LED LED_CAPSL 1 =
     (0, queued_caps_on, [Schedule_work Attr_writer_worker]) \<and>
   fst (rm_hwmon_kb_event led_granted False queued_caps_on EV_LED LED_MISC 1) = - EBUSY \<and>
   fst (rm_hwmon_kb_event led_granted False
          (fst (rm_hwmon_keyboard_attribute_writer (- 5)
             (fst (snd (rm_hwmon_kb_event led_granted False queued_caps_on EV_LED LED_MISC 1)))))
          EV_LED LED_MISC 0) = 0"
proof -
  let ?e2 = "rm_hwmon_kb_event led_granted False queued_caps_on EV_LED LED_MISC 1"
  let ?w = "rm_hwmon_keyboard_attribute_writer (- 5) (fst (snd ?e2))"
  let ?e3 = "rm_hwmon_kb_event led_granted False (fst ?w) EV_LED LED_MISC 0"
  have first: "rm_hwmon_kb_event led_granted False probe_kb_data EV_LED LED_CAPSL 1 =
                 (0, queued_caps_on, [Schedule_work Attr_writer_worker])"
    by (simp add: rm_hwmon_kb_event_def code_attribute_cases probe_kb_data_def
        queued_caps_on_def led_granted_def)
  have code: "LED_MISC = LED_CAPSL \<or> LED_MISC = LED_MISC" by simp
  have second: "?e2 = (fst ?e2, fst (snd ?e2), snd (snd ?e2))" by simp
  have writer: "?w = (fst ?w, snd ?w)" by simp
  have third: "?e3 = (fst ?e3, fst (snd ?e3), snd (snd ?e3))" by simp
  have granted: "led_buffer_granted led_granted \<and> work_queued led_granted"
    by (simp add: led_granted_def)
  from single_slot_writer [OF first code second writer third] granted first
  show ?thesis by simp
qed

subsection \<open>Key events\<close>

text \<open>
  C6. A key event delivered while no input device is registered schedules the connect
  work once and returns \<open>-ENXIO\<close>; these are all its calls, so it reports no key and no
  synchronisation marker to the input core.
\<close>

theorem key_event_without_surface:
  "kb_dev pdata = None \<Longrightarrow>
   rm_hwmon_keyboard_report pdata event = Some (- ENXIO, [Schedule_work Kb_connect_work])"
  by (simp add: rm_hwmon_keyboard_report_def)

theorem key_event_without_surface_witness:
  "kb_dev probe_kb_data = None \<and>
   rm_hwmon_keyboard_report probe_kb_data \<lparr>pressed = 1, row = 6, column = 10, seq_num = 0\<rparr> =
     Some (- ENXIO, [Schedule_work Kb_connect_work])"
  using key_event_without_surface
    [of probe_kb_data "\<lparr>pressed = 1, row = 6, column = 10, seq_num = 0\<rparr>"]
  by (simp add: probe_kb_data_def)

lemma unat_row_less: "unat (r :: 3 word) < 8"
  using unsigned_less [of r, where 'a = nat] by simp

lemma unat_column_less: "unat (c :: 4 word) < 16"
  using unsigned_less [of c, where 'a = nat] by simp

lemma scan_code_of_nat:
  "MATRIX_SCAN_CODE (ucast (r :: 3 word)) (ucast (c :: 4 word)) s =
     word_of_nat (unat r * 2 ^ s + unat c)"
proof -
  have "(ucast r :: 32 word) = word_of_nat (unat r)" "(ucast c :: 32 word) = word_of_nat (unat c)"
    by simp_all
  then show ?thesis
    by (simp add: MATRIX_SCAN_CODE_def push_bit_eq_mult)
qed

lemma scan_code_machine:
  "MATRIX_SCAN_CODE (ucast (r :: 3 word)) (ucast (c :: 4 word)) s =
     ucast r * push_bit s 1 + ucast c"
  by (simp add: MATRIX_SCAN_CODE_def push_bit_eq_mult)

lemma scan_bound:
  assumes "s \<le> 28"
  shows "unat (r :: 3 word) * 2 ^ s + unat (c :: 4 word) < 2 ^ 31"
proof -
  have "(2::nat) ^ s \<le> 2 ^ 28" using assms by (intro power_increasing) simp_all
  moreover have "unat r \<le> 7" using unat_row_less [of r] by simp
  ultimately have "unat r * 2 ^ s \<le> 7 * 2 ^ 28" by (intro mult_mono) simp_all
  moreover have "unat c \<le> 15" using unat_column_less [of c] by simp
  ultimately show ?thesis by simp
qed

lemma sint_word_of_nat_small:
  assumes "n < 2 ^ 31"
  shows "sint (word_of_nat n :: 32 word) = int n"
proof -
  have "sint (word_of_nat n :: 32 word) = signed_take_bit 31 (int n)"
    by (simp only: signed_of_nat) simp
  also have "\<dots> = int n"
  proof (rule signed_take_bit_int_eq_self)
    have "- (2 ^ 31) \<le> (0::int)" by simp
    also have "(0::int) \<le> int n" by simp
    finally show "- (2 ^ 31) \<le> int n" .
    from assms have "int n < int (2 ^ 31)" by (simp only: of_nat_less_iff)
    then show "int n < 2 ^ 31" by simp
  qed
  finally show ?thesis .
qed

lemma scan_code_int:
  assumes "s \<le> 28"
  shows "sint (MATRIX_SCAN_CODE (ucast (r :: 3 word)) (ucast (c :: 4 word)) s) =
           int (unat r * 2 ^ s + unat c)"
  using scan_bound [OF assms, of r c]
  by (simp only: scan_code_of_nat sint_word_of_nat_small)

text \<open>
  \<open>get_count_order\<close> is the base-2 logarithm rounded up: for a count above 1 it is the
  least \<open>k\<close> with \<open>count \<le> 2 ^ k\<close>.
\<close>

lemma fls_bounds: "0 < n \<Longrightarrow> 2 ^ (fls n - 1) \<le> n \<and> n < 2 ^ fls n"
proof (induction n rule: fls.induct)
  case (1 n)
  show ?case
  proof (cases "n div 2 = 0")
    case True
    with 1 have "n = 1" by auto
    then show ?thesis by (simp add: fls.simps)
  next
    case False
    then have h: "0 < n div 2" by simp
    with 1 have ih: "2 ^ (fls (n div 2) - 1) \<le> n div 2 \<and> n div 2 < 2 ^ fls (n div 2)" by simp
    have pos: "0 < fls (n div 2)" using h by (simp add: fls.simps [of "n div 2"])
    have f: "fls n = Suc (fls (n div 2))" using 1 by (simp add: fls.simps [of n])
    from pos have e: "(2::nat) ^ fls (n div 2) = 2 * 2 ^ (fls (n div 2) - 1)"
      by (cases "fls (n div 2)") simp_all
    from ih have "2 * 2 ^ (fls (n div 2) - 1) \<le> n" by linarith
    moreover from ih have "n < 2 * 2 ^ fls (n div 2)" by linarith
    ultimately show ?thesis using f e by simp
  qed
qed

lemma get_count_order_ceil_log2:
  assumes "1 < unat c"
  shows "2 ^ (nat (get_count_order c) - 1) < unat c \<and> unat c \<le> 2 ^ nat (get_count_order c)"
proof -
  have c0: "c \<noteq> 0" using assms by auto
  have u: "unat (c - 1) = unat c - 1" using assms by (simp add: unat_minus_one c0)
  have "0 < unat c - 1" using assms by simp
  from fls_bounds [OF this]
  have "2 ^ (fls (unat c - 1) - 1) < unat c" "unat c \<le> 2 ^ fls (unat c - 1)"
    using assms by linarith+
  then show ?thesis using u c0 by (simp add: get_count_order_def)
qed

lemma get_count_order_16: "get_count_order 16 = 4"
  by (simp add: get_count_order_def fls.simps)

lemma make_input_dev_row_shift:
  "kb_row_shift (fst (snd (rm_hwmon_keyboard_make_input_dev a pdata))) = 4" if "allocated a"
proof -
  have "unat (key_layout pdata) < Suc 0 \<Longrightarrow> unat (key_layout pdata) = 0" by simp
  then show ?thesis using that
    by (auto simp: rm_hwmon_keyboard_make_input_dev_def keymap_layouts_def Let_def
        get_count_order_16 not_le)
qed

lemma report_registered:
  assumes "kb_dev pdata = Some d" "0 \<le> kb_row_shift pdata" "kb_row_shift pdata \<le> 28"
    and "unat (row event) * 2 ^ nat (kb_row_shift pdata) + unat (column event)
           < length (keycode d)"
  shows "rm_hwmon_keyboard_report pdata event =
     Some (0, [Input_report_key
                 (keycode d ! (unat (row event) * 2 ^ nat (kb_row_shift pdata)
                               + unat (column event)))
                 (uint (pressed event)), Input_sync])"
proof -
  have "sint (MATRIX_SCAN_CODE (ucast (row event)) (ucast (column event))
                (nat (kb_row_shift pdata)))
        = int (unat (row event) * 2 ^ nat (kb_row_shift pdata) + unat (column event))"
    using assms(2,3) by (intro scan_code_int) simp
  then show ?thesis using assms
    by (simp add: rm_hwmon_keyboard_report_def Let_def del: of_nat_add of_nat_mult of_nat_power)
qed

text \<open>
  C7. For a key event with row \<open>r\<close> and column \<open>c\<close> and row shift \<open>s\<close>, the scan index
  that \<open>MATRIX_SCAN_CODE\<close> computes is \<open>r * (1 << s) + c\<close> in C's 32-bit arithmetic, and
  it is the integer \<open>r * 2 ^ s + c\<close> for every shift up to 28 (no overflow). With an input
  device registered, a row shift in 0..28 and that index inside the keycode table, the
  handler reports the key code stored at that index, then a synchronisation marker. The
  row shift that \<open>rm_hwmon_keyboard_make_input_dev\<close> stores, \<open>get_count_order\<close> of the
  columns of the selected layout, is 4 for the 7 by 16 layout of the catalog, whatever
  layout index the accessory reported.
\<close>

theorem scan_index_and_row_shift:
  "MATRIX_SCAN_CODE (ucast (r :: 3 word)) (ucast (c :: 4 word)) s
     = ucast r * push_bit s 1 + ucast c \<and>
   (s \<le> 28 \<longrightarrow>
      sint (MATRIX_SCAN_CODE (ucast r) (ucast c) s) = int (unat r) * 2 ^ s + int (unat c)) \<and>
   (kb_dev pdata = Some d \<and> 0 \<le> kb_row_shift pdata \<and> kb_row_shift pdata \<le> 28 \<and>
    unat (row event) * 2 ^ nat (kb_row_shift pdata) + unat (column event) < length (keycode d)
    \<longrightarrow>
      rm_hwmon_keyboard_report pdata event =
        Some (0, [Input_report_key
                    (keycode d ! (unat (row event) * 2 ^ nat (kb_row_shift pdata)
                                  + unat (column event)))
                    (uint (pressed event)), Input_sync])) \<and>
   keymap_row (keymap_layouts ! 0) = 7 \<and> keymap_col (keymap_layouts ! 0) = 16 \<and>
   get_count_order (ucast (keymap_col (keymap_layouts ! 0))) = 4 \<and>
   (allocated a \<longrightarrow>
      kb_row_shift (fst (snd (rm_hwmon_keyboard_make_input_dev a pdata'))) = 4)"
proof -
  have "s \<le> 28 \<Longrightarrow>
      sint (MATRIX_SCAN_CODE (ucast r) (ucast c) s) = int (unat r) * 2 ^ s + int (unat c)"
    using scan_code_int [of s r c] by simp
  moreover have "get_count_order (ucast (keymap_col (keymap_layouts ! 0))) = 4"
    by (simp add: keymap_layouts_def get_count_order_16)
  moreover have "keymap_row (keymap_layouts ! 0) = 7 \<and> keymap_col (keymap_layouts ! 0) = 16"
    by (simp add: keymap_layouts_def)
  ultimately show ?thesis
    using scan_code_machine [of r c s] report_registered [of pdata d event]
      make_input_dev_row_shift [of a pdata']
    by blast
qed

theorem scan_index_and_row_shift_witness:
  "sint (MATRIX_SCAN_CODE (ucast (6 :: 3 word)) (ucast (10 :: 4 word)) 4) = 106 \<and>
   kb_dev active_kb_data = Some plain_input_dev \<and>
   rm_hwmon_keyboard_report active_kb_data \<lparr>pressed = 1, row = 6, column = 10, seq_num = 0\<rparr>
     = Some (0, [Input_report_key 25 1, Input_sync]) \<and>
   allocated input_granted \<and>
   kb_row_shift (fst (snd (rm_hwmon_keyboard_make_input_dev input_granted
                             (probe_kb_data\<lparr>key_layout := 9\<rparr>)))) = 4"
  using scan_index_and_row_shift
    [of 6 10 4 active_kb_data plain_input_dev
        "\<lparr>pressed = 1, row = 6, column = 10, seq_num = 0\<rparr>" input_granted
        "probe_kb_data\<lparr>key_layout := 9\<rparr>"]
  by (simp add: active_kb_data_def plain_input_dev_def input_granted_def)


subsection \<open>The two indicator attributes\<close>

lemma find_key_light_configs:
  "find (\<lambda>c. cfg_id c = KB_ATTR_ID_KEY_LIGHT_CAPS) attribute_configs =
     Some \<lparr>cfg_id = KB_ATTR_ID_KEY_LIGHT_CAPS, cfg_type = ATTRIBUTE_STORAGE_DATA_BOOLEAN,
            cfg_reader = reader_rm_key_light, cfg_name = ''KB_ATTR_ID_KEY_LIGHT_CAPS''\<rparr>"
  "find (\<lambda>c. cfg_id c = KB_ATTR_ID_KEY_LIGHT_RM) attribute_configs =
     Some \<lparr>cfg_id = KB_ATTR_ID_KEY_LIGHT_RM, cfg_type = ATTRIBUTE_STORAGE_DATA_BOOLEAN,
            cfg_reader = reader_caps_key_light, cfg_name = ''KB_ATTR_ID_KEY_LIGHT_RM''\<rparr>"
  by (simp_all add: attribute_configs_def attr_id_defs)

lemma kb_event_accepted:
  assumes "request (attr_writer pdata) = None" "led_buffer_granted a" "work_queued a"
    and "\<not> (v = 0 \<and> sl)"
  shows "rm_hwmon_kb_event a sl pdata EV_LED LED_CAPSL v =
           (0, pdata\<lparr>attr_writer := \<lparr>request = Some (Tx_u8_data (word_of_int v)),
                                      attribute = KB_ATTR_ID_KEY_LIGHT_CAPS, data_length = 1\<rparr>,
                    caps_key_light := (v \<noteq> 0)\<rparr>,
            [Schedule_work Attr_writer_worker])"
    and "rm_hwmon_kb_event a sl pdata EV_LED LED_MISC v =
           (0, pdata\<lparr>attr_writer := \<lparr>request = Some (Tx_u8_data (word_of_int v)),
                                      attribute = KB_ATTR_ID_KEY_LIGHT_RM, data_length = 1\<rparr>,
                    rm_key_light := (v \<noteq> 0)\<rparr>,
            [Schedule_work Attr_writer_worker])"
proof -
  have distinct: "LED_MISC \<noteq> LED_CAPSL" by (simp add: LED_CAPSL_def LED_MISC_def)
  show "rm_hwmon_kb_event a sl pdata EV_LED LED_CAPSL v =
           (0, pdata\<lparr>attr_writer := \<lparr>request = Some (Tx_u8_data (word_of_int v)),
                                      attribute = KB_ATTR_ID_KEY_LIGHT_CAPS, data_length = 1\<rparr>,
                    caps_key_light := (v \<noteq> 0)\<rparr>,
            [Schedule_work Attr_writer_worker])"
    using assms by (auto simp: rm_hwmon_kb_event_def code_attribute_cases Let_def)
  show "rm_hwmon_kb_event a sl pdata EV_LED LED_MISC v =
           (0, pdata\<lparr>attr_writer := \<lparr>request = Some (Tx_u8_data (word_of_int v)),
                                      attribute = KB_ATTR_ID_KEY_LIGHT_RM, data_length = 1\<rparr>,
                    rm_key_light := (v \<noteq> 0)\<rparr>,
            [Schedule_work Attr_writer_worker])"
    using assms distinct by (auto simp: rm_hwmon_kb_event_def code_attribute_cases Let_def)
qed

text \<open>
  C10. The table registers \<open>reader_rm_key_light\<close> for \<open>KB_ATTR_ID_KEY_LIGHT_CAPS\<close> and
  \<open>reader_caps_key_light\<close> for \<open>KB_ATTR_ID_KEY_LIGHT_RM\<close>: a dispatched boolean response
  with the caps id sets \<open>rm_key_light\<close> and leaves every other field, \<open>caps_key_light\<close>
  among them, as it was, and a response with the rM id sets \<open>caps_key_light\<close>. The write
  path pairs them the other way: an accepted caps indicator event selects
  \<open>KB_ATTR_ID_KEY_LIGHT_CAPS\<close> and caches \<open>caps_key_light\<close>, an accepted rM indicator
  event selects \<open>KB_ATTR_ID_KEY_LIGHT_RM\<close> and caches \<open>rm_key_light\<close>.
\<close>

theorem indicator_readers_cross_wired:
  "map_option cfg_reader (find (\<lambda>c. cfg_id c = KB_ATTR_ID_KEY_LIGHT_CAPS) attribute_configs)
     = Some reader_rm_key_light \<and>
   map_option cfg_reader (find (\<lambda>c. cfg_id c = KB_ATTR_ID_KEY_LIGHT_RM) attribute_configs)
     = Some reader_caps_key_light \<and>
   dispatch attribute_configs al pdata
     (attr_res\<lparr>rx_id := KB_ATTR_ID_KEY_LIGHT_CAPS, rx_type := ATTRIBUTE_STORAGE_DATA_BOOLEAN\<rparr>)
     = (True, pdata\<lparr>rm_key_light := bool_data attr_res\<rparr>) \<and>
   dispatch attribute_configs al pdata
     (attr_res\<lparr>rx_id := KB_ATTR_ID_KEY_LIGHT_RM, rx_type := ATTRIBUTE_STORAGE_DATA_BOOLEAN\<rparr>)
     = (True, pdata\<lparr>caps_key_light := bool_data attr_res\<rparr>) \<and>
   (request (attr_writer pdata) = None \<and> led_buffer_granted a \<and> work_queued a \<and>
    \<not> (v = 0 \<and> sl) \<longrightarrow>
      rm_hwmon_kb_event a sl pdata EV_LED LED_CAPSL v =
        (0, pdata\<lparr>attr_writer := \<lparr>request = Some (Tx_u8_data (word_of_int v)),
                                   attribute = KB_ATTR_ID_KEY_LIGHT_CAPS, data_length = 1\<rparr>,
                 caps_key_light := (v \<noteq> 0)\<rparr>,
         [Schedule_work Attr_writer_worker]) \<and>
      rm_hwmon_kb_event a sl pdata EV_LED LED_MISC v =
        (0, pdata\<lparr>attr_writer := \<lparr>request = Some (Tx_u8_data (word_of_int v)),
                                   attribute = KB_ATTR_ID_KEY_LIGHT_RM, data_length = 1\<rparr>,
                 rm_key_light := (v \<noteq> 0)\<rparr>,
         [Schedule_work Attr_writer_worker]))"
proof -
  have "dispatch attribute_configs al pdata
     (attr_res\<lparr>rx_id := KB_ATTR_ID_KEY_LIGHT_CAPS, rx_type := ATTRIBUTE_STORAGE_DATA_BOOLEAN\<rparr>)
     = (True, pdata\<lparr>rm_key_light := bool_data attr_res\<rparr>)"
    by (simp add: dispatch_def find_key_light_configs reader_rm_key_light_def)
  moreover have "dispatch attribute_configs al pdata
     (attr_res\<lparr>rx_id := KB_ATTR_ID_KEY_LIGHT_RM, rx_type := ATTRIBUTE_STORAGE_DATA_BOOLEAN\<rparr>)
     = (True, pdata\<lparr>caps_key_light := bool_data attr_res\<rparr>)"
    by (simp add: dispatch_def find_key_light_configs reader_caps_key_light_def)
  ultimately show ?thesis
    using kb_event_accepted [of pdata a v sl]
    by (simp add: find_key_light_configs)
qed

theorem indicator_readers_cross_wired_witness:
  "dispatch attribute_configs (Granted 0 0) probe_kb_data
     (zero_rx\<lparr>bool_data := True, rx_id := KB_ATTR_ID_KEY_LIGHT_CAPS,
               rx_type := ATTRIBUTE_STORAGE_DATA_BOOLEAN\<rparr>)
     = (True, probe_kb_data\<lparr>rm_key_light := True\<rparr>) \<and>
   request (attr_writer probe_kb_data) = None \<and> led_buffer_granted led_granted \<and>
   work_queued led_granted \<and>
   rm_hwmon_kb_event led_granted False probe_kb_data EV_LED LED_CAPSL 1 =
     (0, probe_kb_data\<lparr>attr_writer := \<lparr>request = Some (Tx_u8_data 1),
                            attribute = KB_ATTR_ID_KEY_LIGHT_CAPS, data_length = 1\<rparr>,
                        caps_key_light := True\<rparr>,
      [Schedule_work Attr_writer_worker])"
  using indicator_readers_cross_wired
    [of "Granted 0 0" probe_kb_data "zero_rx\<lparr>bool_data := True\<rparr>" led_granted 1 False]
  by (simp add: probe_kb_data_def led_granted_def)


subsection \<open>Firmware update\<close>

lemma fw_version_bytes_inj:
  assumes "fw_version_bytes a = fw_version_bytes b"
  shows "a = b"
proof (rule bit_word_eqI)
  fix n assume n: "n < LENGTH(16)"
  from assms have lo: "(ucast a :: u8) = ucast b" and hi: "(ucast (drop_bit 8 a) :: u8) = ucast (drop_bit 8 b)"
    by (simp_all add: fw_version_bytes_def)
  show "bit a n \<longleftrightarrow> bit b n"
  proof (cases "n < 8")
    case True
    have "bit (ucast a :: u8) n \<longleftrightarrow> bit (ucast b :: u8) n" using lo by simp
    with True show ?thesis by (simp add: bit_ucast_iff)
  next
    case False
    then have m: "n - 8 < 8" "n = 8 + (n - 8)" using n by simp_all
    have "bit (ucast (drop_bit 8 a) :: u8) (n - 8) \<longleftrightarrow> bit (ucast (drop_bit 8 b) :: u8) (n - 8)"
      using hi by simp
    with m show ?thesis by (simp add: bit_ucast_iff bit_drop_bit_eq)
  qed
qed

lemma memcmp_eq_0_iff:
  "length xs = length ys \<Longrightarrow> memcmp xs ys = 0 \<longleftrightarrow> xs = ys"
proof (induction xs ys rule: memcmp.induct)
  case (1 a as b bs)
  have "uint a - uint b = 0 \<longleftrightarrow> a = b" by (simp add: word_uint_eq_iff)
  with 1 show ?case by auto
qed simp_all

lemma memcmp_fw_version:
  "memcmp (fw_version_bytes a) (fw_version_bytes b) = 0 \<longleftrightarrow> a = b"
proof -
  have "length (fw_version_bytes a) = length (fw_version_bytes b)"
    by (simp add: fw_version_bytes_def)
  then have "memcmp (fw_version_bytes a) (fw_version_bytes b) = 0
               \<longleftrightarrow> fw_version_bytes a = fw_version_bytes b"
    by (rule memcmp_eq_0_iff)
  then show ?thesis using fw_version_bytes_inj [of a b] by auto
qed

text \<open>
  C3. Name the answers of the steps: \<open>r1\<close>, \<open>r2\<close>, \<open>r3\<close> the statuses of init, transfer
  and validate, \<open>r4\<close> the status of the re-read of the initial attributes and \<open>p4\<close> the
  state it leaves, \<open>r5\<close> the result of \<open>memcmp\<close> on the image header's version and the
  version the accessory reported, \<open>r6\<close> the status of activation. \<open>r5\<close> is nonzero exactly
  when the two versions differ. The update returns the status of the first step that
  fails, having called no later step; it returns the status of activation when no step
  fails. So when init, transfer, validate and the re-read succeed and the versions differ,
  the update returns nonzero and the image is not activated.
\<close>

theorem update_fwu_steps:
  assumes init: "rm_hwmon_fwu_init a (fwu pdata) = (r1, f1)"
    and transfer: "rm_hwmon_fwu_transfer_binary a f1 = (r2, f2)"
    and validate: "rm_hwmon_fwu_validate_image a f2 = (r3, f3)"
    and rd: "rm_hwmon_keyboard_read_init_attributes (reread a) (pdata\<lparr>fwu := f3\<rparr>) = (r4, p4, t4)"
    and cmp: "r5 = memcmp (fw_version_bytes (header_fw_version (fwu p4)))
                     (fw_version_bytes (current_fw_version (fwu p4)))"
    and active: "rm_hwmon_fwu_set_image_active a (fwu p4) = (r6, f6)"
  shows "(r5 \<noteq> 0 \<longleftrightarrow> header_fw_version (fwu p4) \<noteq> current_fw_version (fwu p4)) \<and>
    rm_hwmon_keyboard_update_fwu a pdata =
      (if r1 \<noteq> 0 then (r1, pdata\<lparr>fwu := f1\<rparr>, [Fwu_init])
       else if r2 \<noteq> 0 then (r2, pdata\<lparr>fwu := f2\<rparr>, [Fwu_init, Fwu_transfer_binary])
       else if r3 \<noteq> 0
       then (r3, pdata\<lparr>fwu := f3\<rparr>, [Fwu_init, Fwu_transfer_binary, Fwu_validate_image])
       else if r4 \<noteq> 0
       then (r4, p4, [Fwu_init, Fwu_transfer_binary, Fwu_validate_image,
                      Api_read_attributes init_attr])
       else if r5 \<noteq> 0
       then (r5, p4, [Fwu_init, Fwu_transfer_binary, Fwu_validate_image,
                      Api_read_attributes init_attr])
       else (r6, p4\<lparr>fwu := f6\<rparr>,
             [Fwu_init, Fwu_transfer_binary, Fwu_validate_image,
              Api_read_attributes init_attr, Fwu_set_image_active])) \<and>
    (r1 = 0 \<and> r2 = 0 \<and> r3 = 0 \<and> r4 = 0 \<and>
     header_fw_version (fwu p4) \<noteq> current_fw_version (fwu p4) \<longrightarrow>
       fst (rm_hwmon_keyboard_update_fwu a pdata) \<noteq> 0 \<and>
       Fwu_set_image_active \<notin> set (snd (snd (rm_hwmon_keyboard_update_fwu a pdata))))"
proof -
  have t4: "t4 = [Api_read_attributes init_attr]"
    using rd by (simp add: rm_hwmon_keyboard_read_init_attributes_def
        rm_hwmon_api_read_attributes_def)
  have c: "r5 \<noteq> 0 \<longleftrightarrow> header_fw_version (fwu p4) \<noteq> current_fw_version (fwu p4)"
    using cmp by (simp add: memcmp_fw_version)
  have u: "rm_hwmon_keyboard_update_fwu a pdata =
      (if r1 \<noteq> 0 then (r1, pdata\<lparr>fwu := f1\<rparr>, [Fwu_init])
       else if r2 \<noteq> 0 then (r2, pdata\<lparr>fwu := f2\<rparr>, [Fwu_init, Fwu_transfer_binary])
       else if r3 \<noteq> 0
       then (r3, pdata\<lparr>fwu := f3\<rparr>, [Fwu_init, Fwu_transfer_binary, Fwu_validate_image])
       else if r4 \<noteq> 0
       then (r4, p4, [Fwu_init, Fwu_transfer_binary, Fwu_validate_image,
                      Api_read_attributes init_attr])
       else if r5 \<noteq> 0
       then (r5, p4, [Fwu_init, Fwu_transfer_binary, Fwu_validate_image,
                      Api_read_attributes init_attr])
       else (r6, p4\<lparr>fwu := f6\<rparr>,
             [Fwu_init, Fwu_transfer_binary, Fwu_validate_image,
              Api_read_attributes init_attr, Fwu_set_image_active]))"
    using init transfer validate rd active cmp t4
    by (simp add: rm_hwmon_keyboard_update_fwu_def Let_def)
  show ?thesis
    unfolding u using c by simp
qed


lemma find_fw_version_config:
  "find (\<lambda>c. cfg_id c = KB_ATTR_ID_FW_VERSION) attribute_configs =
     Some \<lparr>cfg_id = KB_ATTR_ID_FW_VERSION, cfg_type = ATTRIBUTE_STORAGE_DATA_UNSIGNED_16_BIT,
            cfg_reader = reader_fw_version, cfg_name = ''KB_ATTR_ID_FW_VERSION''\<rparr>"
  by (simp add: attribute_configs_def attr_id_defs)

theorem update_fwu_steps_witness:
  "rm_hwmon_keyboard_update_fwu (update_answer 0x0101) image_loaded =
     (1, image_loaded\<lparr>fwu := (fwu image_loaded)\<lparr>current_fw_version := 0x0101\<rparr>\<rparr>,
      [Fwu_init, Fwu_transfer_binary, Fwu_validate_image, Api_read_attributes init_attr])"
proof -
  let ?a = "update_answer 0x0101"
  let ?p4 = "image_loaded\<lparr>fwu := (fwu image_loaded)\<lparr>current_fw_version := 0x0101\<rparr>\<rparr>"
  have init: "rm_hwmon_fwu_init ?a (fwu image_loaded) = (0, fwu image_loaded)"
    and transfer: "rm_hwmon_fwu_transfer_binary ?a (fwu image_loaded) = (0, fwu image_loaded)"
    and validate: "rm_hwmon_fwu_validate_image ?a (fwu image_loaded) = (0, fwu image_loaded)"
    and active: "rm_hwmon_fwu_set_image_active ?a (fwu ?p4) = (0, fwu ?p4)"
    by (simp_all add: update_answer_def fwu_ok_def)
  have rd: "rm_hwmon_keyboard_read_init_attributes (reread ?a)
              (image_loaded\<lparr>fwu := fwu image_loaded\<rparr>) = (0, ?p4, [Api_read_attributes init_attr])"
    by (simp add: rm_hwmon_keyboard_read_init_attributes_def rm_hwmon_api_read_attributes_def
        update_answer_def fw_version_rx_def dispatch_def find_fw_version_config
        reader_fw_version_def)
  have cmp: "1 = memcmp (fw_version_bytes (header_fw_version (fwu ?p4)))
                   (fw_version_bytes (current_fw_version (fwu ?p4)))"
    by (simp add: fw_version_bytes_def image_loaded_def probe_kb_data_def)
  from update_fwu_steps [OF init transfer validate rd cmp active]
  show ?thesis by simp
qed



subsection \<open>The connect sequence\<close>

lemma make_input_dev_ok:
  assumes "allocated a" "build_keymap_ret a = 0" "register_ret a = 0"
  shows "\<exists>p' d. rm_hwmon_keyboard_make_input_dev a p =
           (0, p', [Input_allocate_device, Matrix_keypad_build_keymap, Input_register_device]) \<and>
         kb_dev p' = Some d \<and> registered d \<and> keycode d = built_keycode a \<and>
         fwu p' = fwu p \<and> device_name p' = device_name p \<and> bl_brightness p' = bl_brightness p"
  using assms by (simp add: rm_hwmon_keyboard_make_input_dev_def Let_def)

lemma set_brightness_granted:
  "buffer_granted a \<Longrightarrow>
   \<exists>req n. rm_hwmon_keyboard_set_brightness a p =
     (write_ret a, [Api_write_attribute KB_ATTR_ID_BKL_BRIGHTNESS req n])"
  by (simp add: rm_hwmon_keyboard_set_brightness_def Let_def)

lemma read_init_calls:
  "rm_hwmon_keyboard_read_init_attributes a p = (r, p', t) \<Longrightarrow>
   t = [Api_read_attributes init_attr]"
  by (auto simp: rm_hwmon_keyboard_read_init_attributes_def rm_hwmon_api_read_attributes_def)

lemma fill_brightness_all:
  "fill_brightness 0 v (replicate ATTRIBUTES_NR_OF_BKLS 0) = [v, v, v, v, v, v]"
  by (simp add: fill_brightness.simps ATTRIBUTES_NR_OF_BKLS_def numeral_eq_Suc)

lemma read_init_fw_version:
  "rm_hwmon_keyboard_read_init_attributes \<lparr>responses = [(al, fw_version_rx v)], read_ret = r\<rparr> p =
     (r, p\<lparr>fwu := (fwu p)\<lparr>current_fw_version := v\<rparr>\<rparr>, [Api_read_attributes init_attr])"
  by (simp add: rm_hwmon_keyboard_read_init_attributes_def rm_hwmon_api_read_attributes_def
      fw_version_rx_def dispatch_def find_fw_version_config reader_fw_version_def)

text \<open>
  C1, as stated: when the read of the initial attributes and the authorize request
  succeed, the firmware update is not run and the brightness is written once. The code
  asks the firmware provider for an upgrade after the authorize request whatever its
  outcome: when the provider holds a newer image, the read and the authorize request
  succeed and the input device is registered, and then the update runs (init, transfer,
  validate, re-read, activate), the authorize request is sent again and the brightness is
  written a second time.
\<close>

theorem connect_upgrade_after_authorize_counterexample:
  "read_ret (init_read connect_upgrade_due) = 0 \<and>
   authorize_ret connect_upgrade_due = 0 \<and>
   snd (snd (rm_hwmon_keyboard_register connect_upgrade_due probe_kb_data)) =
     [Api_read_attributes init_attr, Api_write_cmd HSP_CMD_ACCS_AUTHORIZE_REQUEST,
      Input_allocate_device, Matrix_keypad_build_keymap, Input_register_device,
      Api_write_attribute KB_ATTR_ID_BKL_BRIGHTNESS
        (Tx_array ATTRIBUTE_STORAGE_DATA_UNSIGNED_8_BIT 6 [0, 0, 0, 0, 0, 0]) 8,
      Fwu_load_and_check_for_upgrade,
      Fwu_init, Fwu_transfer_binary, Fwu_validate_image, Api_read_attributes init_attr,
      Fwu_set_image_active, Fwu_release_firmware,
      Api_write_cmd HSP_CMD_ACCS_AUTHORIZE_REQUEST,
      Api_write_attribute KB_ATTR_ID_BKL_BRIGHTNESS
        (Tx_array ATTRIBUTE_STORAGE_DATA_UNSIGNED_8_BIT 6 [0, 0, 0, 0, 0, 0]) 8]"
proof -
  let ?e = connect_upgrade_due
  let ?p1 = "probe_kb_data\<lparr>fwu := (fwu probe_kb_data)\<lparr>current_fw_version := 0x0100\<rparr>\<rparr>"
  have e: "read_ret (init_read ?e) = 0" "authorize_ret ?e = 0" "reauthorize_ret ?e = 0"
    "input ?e = input_granted" "brightness ?e = write_granted"
    "brightness_again ?e = write_granted" "update ?e = update_answer 0x0201"
    "rm_hwmon_fwu_load_and_check_for_upgrade ?e = (\<lambda>f n. (True, f\<lparr>header_fw_version := 0x0201\<rparr>))"
    "rm_hwmon_fwu_release_firmware ?e = (\<lambda>f. f)"
    "init_read ?e = \<lparr>responses = [(Granted 0 0, fw_version_rx 0x0100)], read_ret = 0\<rparr>"
    by (simp_all add: connect_upgrade_due_def)
  have br: "rm_hwmon_keyboard_set_brightness write_granted p =
              (0, [Api_write_attribute KB_ATTR_ID_BKL_BRIGHTNESS
                     (Tx_array ATTRIBUTE_STORAGE_DATA_UNSIGNED_8_BIT 6
                        (let v = word_of_int (bl_brightness p) in [v, v, v, v, v, v])) 8])" for p
    using fill_brightness_all [of "word_of_int (bl_brightness p)"]
    by (simp add: rm_hwmon_keyboard_set_brightness_def write_granted_def Let_def
        HEADER_SIZE_ARRAY_def) (simp add: ATTRIBUTES_NR_OF_BKLS_def)
  obtain p2 where mk: "rm_hwmon_keyboard_make_input_dev input_granted ?p1 =
           (0, p2, [Input_allocate_device, Matrix_keypad_build_keymap, Input_register_device])"
    and p2: "fwu p2 = fwu ?p1" "device_name p2 = device_name ?p1"
      "bl_brightness p2 = bl_brightness ?p1"
    using make_input_dev_ok [of input_granted ?p1] by (auto simp: input_granted_def)
  have b0: "bl_brightness ?p1 = 0" by (simp add: probe_kb_data_def)
  let ?p3 = "p2\<lparr>fwu := (fwu ?p1)\<lparr>header_fw_version := 0x0201\<rparr>\<rparr>"
  have upd: "rm_hwmon_keyboard_update_fwu (update_answer 0x0201) ?p3 =
     (0, p2\<lparr>fwu := (fwu ?p1)\<lparr>header_fw_version := 0x0201, current_fw_version := 0x0201\<rparr>\<rparr>,
      [Fwu_init, Fwu_transfer_binary, Fwu_validate_image, Api_read_attributes init_attr,
       Fwu_set_image_active])"
    by (simp add: rm_hwmon_keyboard_update_fwu_def update_answer_def fwu_ok_def
        read_init_fw_version fw_version_bytes_def)
  show ?thesis
    using mk p2 b0 upd
    by (simp add: rm_hwmon_keyboard_register_def rm_hwmon_keyboard_unregister_def e
        read_init_fw_version register_authorize_def register_upgrade_def
        register_reauthorize_def register_input_def br probe_kb_data_def)
qed

text \<open>
  C1, amended. In a connect sequence in which the read of the initial attributes and the
  authorize request succeed, the input device is allocated, its keymap built and the
  device registered without error, the buffer of the brightness write is granted, and the
  firmware provider, asked once, reports no upgrade due: the session ends with the input
  device registered, no step of the firmware update is called, and the brightness
  attribute is written exactly once; the status returned is that of the brightness write.
\<close>

theorem connect_without_upgrade:
  assumes unreg: "rm_hwmon_keyboard_unregister pdata = (removed, p0, t0)"
    and read: "rm_hwmon_keyboard_read_init_attributes (init_read e)
                 (p0\<lparr>rm_key_light := False, caps_key_light := False,
                     rm_key_on_after_resume := False\<rparr>) = (0, p1, t1)"
    and auth: "authorize_ret e = 0"
    and dev: "allocated (input e)" "build_keymap_ret (input e) = 0" "register_ret (input e) = 0"
    and granted: "buffer_granted (brightness e)"
    and none: "rm_hwmon_fwu_load_and_check_for_upgrade e (fwu p1) (device_name p1) = (False, f)"
    and run: "rm_hwmon_keyboard_register e pdata = (ret, p, tr)"
  shows "(\<exists>d. kb_dev p = Some d \<and> registered d) \<and>
         ret = write_ret (brightness e) \<and>
         filter is_update_step tr = [] \<and>
         length (filter is_brightness_write tr) = 1 \<and>
         length (filter (\<lambda>c. c = Fwu_load_and_check_for_upgrade) tr) = 1"
proof -
  obtain p2 d where mk: "rm_hwmon_keyboard_make_input_dev (input e) p1 =
           (0, p2, [Input_allocate_device, Matrix_keypad_build_keymap, Input_register_device])"
    and p2: "kb_dev p2 = Some d" "registered d" "fwu p2 = fwu p1" "device_name p2 = device_name p1"
    using make_input_dev_ok [OF dev, of p1] by blast
  obtain req n where br: "rm_hwmon_keyboard_set_brightness (brightness e) p2 =
     (write_ret (brightness e), [Api_write_attribute KB_ATTR_ID_BKL_BRIGHTNESS req n])"
    using set_brightness_granted [OF granted, of p2] by blast
  have t1: "t1 = [Api_read_attributes init_attr]"
    using read by (rule read_init_calls)
  have up: "register_upgrade e (write_ret (brightness e)) True True p2 t =
              (write_ret (brightness e), p2\<lparr>fwu := f\<rparr>, t @ [Fwu_load_and_check_for_upgrade])" for t
    using none p2
    by (simp add: register_upgrade_def register_reauthorize_def register_input_def)
  have au: "register_authorize e p1 t =
              (write_ret (brightness e), p2\<lparr>fwu := f\<rparr>,
               t @ [Api_write_cmd HSP_CMD_ACCS_AUTHORIZE_REQUEST, Input_allocate_device,
                    Matrix_keypad_build_keymap, Input_register_device,
                    Api_write_attribute KB_ATTR_ID_BKL_BRIGHTNESS req n,
                    Fwu_load_and_check_for_upgrade])" for t
    using auth mk br by (simp add: register_authorize_def up)
  have "rm_hwmon_keyboard_register e pdata =
          (write_ret (brightness e), p2\<lparr>fwu := f\<rparr>,
           t0 @ [Api_read_attributes init_attr, Api_write_cmd HSP_CMD_ACCS_AUTHORIZE_REQUEST,
                 Input_allocate_device, Matrix_keypad_build_keymap, Input_register_device,
                 Api_write_attribute KB_ATTR_ID_BKL_BRIGHTNESS req n,
                 Fwu_load_and_check_for_upgrade])"
    using unreg read t1 by (simp add: rm_hwmon_keyboard_register_def au)
  with run have r: "ret = write_ret (brightness e)" "p = p2\<lparr>fwu := f\<rparr>"
    "tr = t0 @ [Api_read_attributes init_attr, Api_write_cmd HSP_CMD_ACCS_AUTHORIZE_REQUEST,
                 Input_allocate_device, Matrix_keypad_build_keymap, Input_register_device,
                 Api_write_attribute KB_ATTR_ID_BKL_BRIGHTNESS req n,
                 Fwu_load_and_check_for_upgrade]"
    by simp_all
  have t0: "filter is_update_step t0 = []" "filter is_brightness_write t0 = []"
    "filter (\<lambda>c. c = Fwu_load_and_check_for_upgrade) t0 = []"
    using unreg
    by (auto simp: rm_hwmon_keyboard_unregister_def is_update_step_def split: option.splits)
  show ?thesis using r p2 t0 by (simp add: is_update_step_def)
qed


theorem connect_without_upgrade_witness:
  "authorize_ret connect_no_upgrade = 0 \<and>
   allocated (input connect_no_upgrade) \<and>
   buffer_granted (brightness connect_no_upgrade) \<and>
   fst (rm_hwmon_keyboard_register connect_no_upgrade probe_kb_data) = 0 \<and>
   map_option registered (kb_dev (fst (snd (rm_hwmon_keyboard_register connect_no_upgrade
                                              probe_kb_data)))) = Some True \<and>
   filter is_update_step (snd (snd (rm_hwmon_keyboard_register connect_no_upgrade
                                      probe_kb_data))) = [] \<and>
   length (filter is_brightness_write (snd (snd (rm_hwmon_keyboard_register connect_no_upgrade
                                                   probe_kb_data)))) = 1"
proof -
  let ?e = connect_no_upgrade
  let ?p1 = "probe_kb_data\<lparr>fwu := (fwu probe_kb_data)\<lparr>current_fw_version := 0x0100\<rparr>\<rparr>"
  let ?run = "rm_hwmon_keyboard_register ?e probe_kb_data"
  have unreg: "rm_hwmon_keyboard_unregister probe_kb_data = (False, probe_kb_data, [])"
    by (simp add: rm_hwmon_keyboard_unregister_def probe_kb_data_def)
  have read: "rm_hwmon_keyboard_read_init_attributes (init_read ?e)
                (probe_kb_data\<lparr>rm_key_light := False, caps_key_light := False,
                   rm_key_on_after_resume := False\<rparr>) = (0, ?p1, [Api_read_attributes init_attr])"
    by (simp add: connect_no_upgrade_def connect_upgrade_due_def read_init_fw_version
        probe_kb_data_def)
  have auth: "authorize_ret ?e = 0"
    and dev: "allocated (input ?e)" "build_keymap_ret (input ?e) = 0" "register_ret (input ?e) = 0"
    and granted: "buffer_granted (brightness ?e)"
    and wr: "write_ret (brightness ?e) = 0"
    and none: "rm_hwmon_fwu_load_and_check_for_upgrade ?e (fwu ?p1) (device_name ?p1)
                 = (False, fwu ?p1)"
    by (simp_all add: connect_no_upgrade_def connect_upgrade_due_def input_granted_def
        write_granted_def)
  have run: "?run = (fst ?run, fst (snd ?run), snd (snd ?run))" by simp
  from connect_without_upgrade [OF unreg read auth dev granted none run] auth dev granted wr
  show ?thesis by auto
qed

end
